theory Spec2Isabelle
  imports Main
begin

section \<open>Data model\<close>

text \<open>
  The two persisted row classes of the repository, \<^verbatim>\<open>ActiveOrder\<close>
  (\<^verbatim>\<open>ai/orders_reporting.py\<close>) and \<^verbatim>\<open>StoredDrone\<close>
  (\<^verbatim>\<open>ai/storage.py\<close>). The attribute \<^verbatim>\<open>id\<close> is called
  \<open>order_id\<close> and \<open>stored_id\<close> here; it holds \<^verbatim>\<open>str(uuid4())\<close>, an
  opaque identifier, modelled as a number drawn from a counter. A timestamp column
  holds \<^verbatim>\<open>str(datetime)\<close> and is read back with
  \<^verbatim>\<open>datetime.fromisoformat\<close>; the column is modelled as the instant it
  encodes, counted in microseconds.
\<close>

type_synonym datetime = int

text \<open>
  A Python string is a sequence of Unicode code points. \<open>ascii\<close> is the string of a
  literal whose characters are all in the ASCII range.
\<close>

type_synonym str = "nat list"

definition ascii :: "string \<Rightarrow> str" where
  "ascii cs = map of_char cs"

definition timedelta_minutes :: "int \<Rightarrow> int" where
  "timedelta_minutes m = m * 60000000"

definition timedelta_hours :: "int \<Rightarrow> int" where
  "timedelta_hours h = h * 3600000000"

record ActiveOrder =
  order_id :: nat
  drone_id :: str
  protocol :: str
  finish_time :: datetime

record StoredDrone =
  stored_id :: nat
  drone_id :: str
  target_id :: str
  purpose :: str
  roles :: str
  release_time :: datetime

text \<open>
  The objects of the chat platform the handlers read: a role (equal to another role
  when the identifiers agree), a guild member, a message, a command context. A channel
  is known by its name.
\<close>

record Role =
  role_id :: nat
  role_name :: str

record Member =
  member_id :: nat
  display_name :: str
  mention :: str
  member_roles :: "Role list"

record Message =
  content :: str
  author :: Member
  channel :: str
  mentions :: "Member list"

record Context =
  ctx_author :: Member
  ctx_channel :: str

text \<open>
  The names the sources import from modules outside \<^verbatim>\<open>ai/\<close>
  (\<^verbatim>\<open>roles\<close>, \<^verbatim>\<open>channels\<close>, \<^verbatim>\<open>bot_utils.get_id\<close>) are
  parameters. \<open>hours_text\<close> stands for the text of
  \<^verbatim>\<open>round(hours_from_now(t), 2)\<close>, a floating-point number, given the
  difference \<open>t - now\<close>. \<open>decimal\<close> is the interpreter's table of the Unicode
  decimal digits (the characters of category Nd): the value of a digit, and
  \<open>None\<close> for every other character. These are the characters that
  \<^verbatim>\<open>\d\<close> matches in a pattern and that \<^verbatim>\<open>int\<close> reads.
\<close>

record config =
  get_id :: "str \<Rightarrow> str option"
  ORDERS_REPORTING :: str
  STORAGE_CHAMBERS :: str
  STORED :: str
  DRONE :: str
  HIVE_MXTRESS :: str
  MODERATION_ROLES :: "str list"
  EVERYONE :: str
  NITRO_BOOSTER :: str
  PATREON_SUPPORTER :: str
  hours_text :: "int \<Rightarrow> str"
  decimal :: "nat \<Rightarrow> nat option"

datatype loop = OrderLoop | ReleaseLoop | ReportLoop

text \<open>
  The state the code reads and writes: the guild (its roles, members and channels), the
  two tables, the messages sent so far as pairs of channel and text, the wall clock, the
  identifier counter, and the two flags of the \<^verbatim>\<open>Storage\<close> object.
  \<open>loops_entered\<close> records each entry into a \<^verbatim>\<open>while True\<close> loop.

  A scan of a loop and a call of a storage handler are taken as a single step: no other
  coroutine runs at their \<^verbatim>\<open>await\<close>s, and the clock stands still within the
  step. What happens while a loop sleeps is a function on the state.
  \<^verbatim>\<open>report_order\<close> is cut at the \<^verbatim>\<open>await\<close> between its lookup and
  its insert, so that two invocations can be run interleaved there.
\<close>

record world =
  guild_roles :: "Role list"
  guild_members :: "Member list"
  guild_channels :: "str list"
  orders :: "ActiveOrder list"
  storage :: "StoredDrone list"
  sent :: "(str \<times> str) list"
  now :: datetime
  uuid_counter :: nat
  reporter_started :: bool
  release_started :: bool
  loops_entered :: "loop list"

text \<open>
  An exception leaves the state as it was when it was raised, so a failing run returns
  the exception with that state.
\<close>

datatype error = IndexError | AttributeError

type_synonym 'a result = "(error \<times> world) + ('a \<times> world)"

definition and_then :: "'a result \<Rightarrow> ('a \<Rightarrow> world \<Rightarrow> 'b result) \<Rightarrow> 'b result" where
  "and_then r f = (case r of Inl e \<Rightarrow> Inl e | Inr (x, w) \<Rightarrow> f x w)"

text \<open>
  A background loop never returns by itself. Its runs are cut after a number of wake-ups:
  \<open>Running\<close> says that the loop is asleep again, \<open>Returned\<close> that the coroutine
  returned.
\<close>

datatype exit = Returned | Running

section \<open>Strings\<close>

text \<open>
  \<^verbatim>\<open>str.lower\<close> on the letters A to Z. The handlers compare its result with
  \<^verbatim>\<open>'help'\<close> and \<^verbatim>\<open>'release'\<close> only, and no character outside
  A to Z has a letter of these two words in its lower case (the only other characters with
  an ASCII letter in their lower case are U+0130 and U+212A, which give i and k), so the
  two comparisons come out as with the full mapping.
\<close>

definition lower_char :: "nat \<Rightarrow> nat" where
  "lower_char c = (if 65 \<le> c \<and> c \<le> 90 then c + 32 else c)"

definition lower :: "str \<Rightarrow> str" where
  "lower s = map lower_char s"

definition startswith :: "str \<Rightarrow> str \<Rightarrow> bool" where
  "startswith s p = (take (length p) s = p)"

text \<open>\<^verbatim>\<open>sep.join(xs)\<close> and \<^verbatim>\<open>s.split(c)\<close>.\<close>

fun str_join :: "str \<Rightarrow> str list \<Rightarrow> str" where
  "str_join sep [] = []"
| "str_join sep [x] = x"
| "str_join sep (x # y # ys) = x @ sep @ str_join sep (y # ys)"

fun str_split :: "nat \<Rightarrow> str \<Rightarrow> str list" where
  "str_split c [] = [[]]"
| "str_split c (x # xs) =
     (if x = c then [] # str_split c xs
      else (case str_split c xs of
              [] \<Rightarrow> [[x]]
            | y # ys \<Rightarrow> (x # y) # ys))"

text \<open>
  \<^verbatim>\<open>MESSAGE_FORMAT = r'^(\d{4}) :: (\d{4}) :: (\d+) :: (.*)'\<close>:
  \<open>match_format\<close> is \<^verbatim>\<open>re.match\<close> with this pattern and gives the four
  groups, which is also the one tuple \<^verbatim>\<open>re.findall\<close> returns.
  \<^verbatim>\<open>\d\<close> is any Unicode decimal digit, as the table \<open>decimal\<close> has it. The
  third group is the longest run of digits (the space that must follow is no digit, so no
  shorter run can match), and the last group runs to the end of the line, the character 10.
\<close>

definition is_digit :: "config \<Rightarrow> nat \<Rightarrow> bool" where
  "is_digit cfg c = (decimal cfg c \<noteq> None)"

definition match_format :: "config \<Rightarrow> str \<Rightarrow> (str \<times> str \<times> str \<times> str) option" where
  "match_format cfg s =
     (let g1 = take 4 s; s1 = drop 4 s;
          g2 = take 4 (drop 4 s1); s2 = drop 8 s1;
          g3 = takeWhile (is_digit cfg) (drop 4 s2); s3 = dropWhile (is_digit cfg) (drop 4 s2)
      in if length g1 = 4 \<and> list_all (is_digit cfg) g1 \<and> take 4 s1 = ascii '' :: '' \<and>
            length g2 = 4 \<and> list_all (is_digit cfg) g2 \<and> take 4 s2 = ascii '' :: '' \<and>
            g3 \<noteq> [] \<and> take 4 s3 = ascii '' :: ''
         then Some (g1, g2, g3, takeWhile (\<lambda>c. c \<noteq> 10) (drop 4 s3))
         else None)"

text \<open>
  \<^verbatim>\<open>int(time)\<close>: the number that the digits of the string denote in base ten,
  each digit with its value in the table. The handler applies it to the third group only,
  which consists of digits (and is shorter than the length at which \<^verbatim>\<open>int\<close>
  refuses a string).
\<close>

definition digit_value :: "config \<Rightarrow> nat \<Rightarrow> int" where
  "digit_value cfg c = (case decimal cfg c of None \<Rightarrow> 0 | Some v \<Rightarrow> int v)"

definition int_of_digits :: "config \<Rightarrow> str \<Rightarrow> int" where
  "int_of_digits cfg s = foldl (\<lambda>n c. 10 * n + digit_value cfg c) 0 s"

definition REJECT_MESSAGE :: str where
  "REJECT_MESSAGE = ascii ''Invalid input format. Use `[DRONE ID HERE] :: [TARGET DRONE HERE] :: [INTEGER BETWEEN 1 - 24 HERE] :: [RECORDED PURPOSE OF STORAGE HERE]` (exclude brackets).''"

section \<open>The chat platform\<close>

text \<open>
  \<^verbatim>\<open>discord.utils.get(xs, name=n)\<close> is the first element with that name, or
  \<^verbatim>\<open>None\<close>.
\<close>

definition get_role :: "str \<Rightarrow> Role list \<Rightarrow> Role option" where
  "get_role n rs = find (\<lambda>r. role_name r = n) rs"

definition get_channel :: "str \<Rightarrow> str list \<Rightarrow> str option" where
  "get_channel n cs = find (\<lambda>c. c = n) cs"

definition send :: "str \<Rightarrow> str \<Rightarrow> world \<Rightarrow> world" where
  "send ch text w = w\<lparr>sent := sent w @ [(ch, text)]\<rparr>"

text \<open>
  \<^verbatim>\<open>ch.send(text)\<close> where \<^verbatim>\<open>ch\<close> is the result of a lookup by name:
  on \<^verbatim>\<open>None\<close> the attribute access raises.
\<close>

definition send_to :: "str option \<Rightarrow> str \<Rightarrow> world \<Rightarrow> unit result" where
  "send_to ch text w =
     (case ch of
        None \<Rightarrow> Inl (AttributeError, w)
      | Some c \<Rightarrow> Inr ((), send c text w))"

definition role_in :: "Role \<Rightarrow> Role list \<Rightarrow> bool" where
  "role_in r rs = (role_id r \<in> set (map role_id rs))"

definition edit_member :: "nat \<Rightarrow> (Role list \<Rightarrow> Role list) \<Rightarrow> world \<Rightarrow> world" where
  "edit_member i f w =
     w\<lparr>guild_members :=
         map (\<lambda>m. if member_id m = i then m\<lparr>member_roles := f (member_roles m)\<rparr> else m)
           (guild_members w)\<rparr>"

text \<open>
  \<^verbatim>\<open>member.add_roles(*roles)\<close> and \<^verbatim>\<open>member.remove_roles(*roles)\<close>
  handle the roles one after the other and read the identifier of each: an argument that
  is \<^verbatim>\<open>None\<close> raises there, after the roles before it have been handled.
\<close>

fun add_roles :: "nat \<Rightarrow> Role option list \<Rightarrow> world \<Rightarrow> unit result" where
  "add_roles i [] w = Inr ((), w)"
| "add_roles i (None # rs) w = Inl (AttributeError, w)"
| "add_roles i (Some r # rs) w =
     add_roles i rs (edit_member i (\<lambda>xs. if role_in r xs then xs else xs @ [r]) w)"

fun remove_roles :: "nat \<Rightarrow> Role option list \<Rightarrow> world \<Rightarrow> unit result" where
  "remove_roles i [] w = Inr ((), w)"
| "remove_roles i (None # rs) w = Inl (AttributeError, w)"
| "remove_roles i (Some r # rs) w =
     remove_roles i rs (edit_member i (filter (\<lambda>x. role_id x \<noteq> role_id r)) w)"

text \<open>
  Modelled from the spec: \<^verbatim>\<open>roles.has_role\<close> is not among the sources; the
  spec speaks of members holding a role, so a member has a role when one of its roles has
  that name.
\<close>

definition has_role :: "Member \<Rightarrow> str \<Rightarrow> bool" where
  "has_role member n = (n \<in> set (map role_name (member_roles member)))"

definition uuid4 :: "world \<Rightarrow> nat \<times> world" where
  "uuid4 w = (uuid_counter w, w\<lparr>uuid_counter := Suc (uuid_counter w)\<rparr>)"

section \<open>The row store\<close>

text \<open>
  Modelled from the spec: the module \<^verbatim>\<open>db\<close> (\<^verbatim>\<open>drone_order_dao\<close> and
  \<^verbatim>\<open>database\<close>) is not among the sources. The spec describes a row store with
  insert, delete and select by a simple predicate over two independent tables; rows come
  back in the order they were inserted.
\<close>

definition fetch_all_drone_orders :: "world \<Rightarrow> ActiveOrder list" where
  "fetch_all_drone_orders w = orders w"

definition get_order_by_drone_id :: "str \<Rightarrow> world \<Rightarrow> ActiveOrder option" where
  "get_order_by_drone_id d w = find (\<lambda>r. ActiveOrder.drone_id r = d) (orders w)"

definition insert_drone_order :: "ActiveOrder \<Rightarrow> world \<Rightarrow> world" where
  "insert_drone_order r w = w\<lparr>orders := orders w @ [r]\<rparr>"

definition delete_drone_order :: "nat \<Rightarrow> world \<Rightarrow> world" where
  "delete_drone_order i w = w\<lparr>orders := filter (\<lambda>r. order_id r \<noteq> i) (orders w)\<rparr>"

definition insert_storage :: "StoredDrone \<Rightarrow> world \<Rightarrow> world" where
  "insert_storage r w = w\<lparr>storage := storage w @ [r]\<rparr>"

definition delete_storage :: "nat \<Rightarrow> world \<Rightarrow> world" where
  "delete_storage i w = w\<lparr>storage := filter (\<lambda>r. stored_id r \<noteq> i) (storage w)\<rparr>"

definition get_stored_drones :: "world \<Rightarrow> StoredDrone list" where
  "get_stored_drones w = storage w"

section \<open>Orders: \<^verbatim>\<open>ai/orders_reporting.py\<close>\<close>

text \<open>
  The loop over \<^verbatim>\<open>bot.guilds[0].members\<close> inside
  \<^verbatim>\<open>check_for_completed_orders\<close>: every member whose identifier is the
  order's gets the notice, and the row is deleted right after each notice.
\<close>

fun notify_members ::
  "config \<Rightarrow> str option \<Rightarrow> ActiveOrder \<Rightarrow> Member list \<Rightarrow> world \<Rightarrow> unit result" where
  "notify_members cfg ch order [] w = Inr ((), w)"
| "notify_members cfg ch order (member # ms) w =
     (if get_id cfg (display_name member) = Some (ActiveOrder.drone_id order)
      then and_then
             (send_to ch
                (mention member @ ascii '' Drone '' @ ActiveOrder.drone_id order @ ascii '' Deactivate.''
                   @ [10] @ ascii ''Drone '' @ ActiveOrder.drone_id order @ ascii '', good drone.'')
                w)
             (\<lambda>_ w1. notify_members cfg ch order ms (delete_drone_order (order_id order) w1))
      else notify_members cfg ch order ms w)"

text \<open>The body of the loop over the fetched rows, for one row.\<close>

definition check_order :: "config \<Rightarrow> str option \<Rightarrow> ActiveOrder \<Rightarrow> world \<Rightarrow> unit result" where
  "check_order cfg ch order w =
     (if now w > finish_time order
      then notify_members cfg ch order (guild_members w) w
      else Inr ((), w))"

fun scan_orders :: "config \<Rightarrow> str option \<Rightarrow> ActiveOrder list \<Rightarrow> world \<Rightarrow> unit result" where
  "scan_orders cfg ch [] w = Inr ((), w)"
| "scan_orders cfg ch (order # rest) w =
     and_then (check_order cfg ch order w) (\<lambda>_ w1. scan_orders cfg ch rest w1)"

text \<open>
  One pass of the \<^verbatim>\<open>while True\<close> body: \<^verbatim>\<open>await asyncio.sleep(60)\<close>,
  during which the rest of the process and the clock move the state by \<open>sleep\<close>, then
  the scan of the rows fetched after it. The loop runs for as many passes as sleeps are
  given.
\<close>

fun order_loop ::
  "config \<Rightarrow> str option \<Rightarrow> (world \<Rightarrow> world) list \<Rightarrow> world \<Rightarrow> exit result" where
  "order_loop cfg ch [] w = Inr (Running, w)"
| "order_loop cfg ch (sleep # sleeps) w =
     and_then (scan_orders cfg ch (fetch_all_drone_orders (sleep w)) (sleep w))
       (\<lambda>_ w1. order_loop cfg ch sleeps w1)"

definition check_for_completed_orders ::
  "config \<Rightarrow> (world \<Rightarrow> world) list \<Rightarrow> world \<Rightarrow> exit result" where
  "check_for_completed_orders cfg sleeps w =
     (let ORDERS_REPORTING_CHANNEL = get_channel (ORDERS_REPORTING cfg) (guild_channels w)
      in order_loop cfg ORDERS_REPORTING_CHANNEL sleeps
           (w\<lparr>loops_entered := loops_entered w @ [OrderLoop]\<rparr>))"

text \<open>
  \<^verbatim>\<open>report_order\<close> up to its last \<^verbatim>\<open>await\<close>. The coroutine has either
  returned (the invoker has no identifier, or has an order already, or asks for a length of
  time that is refused), or it has passed the three checks and is suspended at
  \<^verbatim>\<open>await context.send(...)\<close> of the acknowledgement, the insert still to come:
  then the result carries the identifier of the invoker.
\<close>

definition report_order_start ::
  "config \<Rightarrow> Context \<Rightarrow> str \<Rightarrow> int \<Rightarrow> world \<Rightarrow> str option \<times> world" where
  "report_order_start cfg context protocol_name protocol_time w =
     (case get_id cfg (display_name (ctx_author context)) of
        None \<Rightarrow> (None, w)
      | Some drone_id' \<Rightarrow>
          (case get_order_by_drone_id drone_id' w of
             Some current_order \<Rightarrow>
               (None,
                send (ctx_channel context)
                  (ascii ''HexDrone #'' @ drone_id' @ ascii '' is already undertaking the ''
                     @ protocol current_order @ ascii '' protocol.'') w)
           | None \<Rightarrow>
               if protocol_time > 120 \<or> protocol_time < 1
               then (None,
                     send (ctx_channel context)
                       (ascii ''Drones are not authorized to activate a specific protocol for that length of time. The maximum is 120 minutes.'')
                       w)
               else (Some drone_id',
                     send (ctx_channel context)
                       (ascii ''If safe and willing to do so, Drone '' @ drone_id'
                          @ ascii '' Activate.'' @ [10] @ ascii ''Drone '' @ drone_id'
                          @ ascii '' will elaborate on its exact tasks before proceeding with them.'')
                       w)))"

text \<open>The rest of \<^verbatim>\<open>report_order\<close>, from the state in which the coroutine resumes.\<close>

definition report_order_resume :: "str \<Rightarrow> str \<Rightarrow> int \<Rightarrow> world \<Rightarrow> world" where
  "report_order_resume drone_id' protocol_name protocol_time w1 =
     (let finish_time' = now w1 + timedelta_minutes protocol_time;
          (uuid, w2) = uuid4 w1;
          created_order =
            \<lparr>order_id = uuid, ActiveOrder.drone_id = drone_id', protocol = protocol_name,
             finish_time = finish_time'\<rparr>
      in insert_drone_order created_order w2)"

text \<open>An invocation during which no other coroutine runs.\<close>

definition report_order :: "config \<Rightarrow> Context \<Rightarrow> str \<Rightarrow> int \<Rightarrow> world \<Rightarrow> world" where
  "report_order cfg context protocol_name protocol_time w =
     (case report_order_start cfg context protocol_name protocol_time w of
        (None, w') \<Rightarrow> w'
      | (Some drone_id', w1) \<Rightarrow> report_order_resume drone_id' protocol_name protocol_time w1)"

section \<open>Storage: \<^verbatim>\<open>ai/storage.py\<close>\<close>

fun get_names_for_roles :: "Role list \<Rightarrow> str list" where
  "get_names_for_roles [] = []"
| "get_names_for_roles (role # rest) = role_name role # get_names_for_roles rest"

text \<open>
  The first argument stands for the guild, whose roles are read from the state. A name that
  no role of the guild bears contributes \<^verbatim>\<open>None\<close> to the result.
\<close>

fun get_roles_for_names :: "world \<Rightarrow> str list \<Rightarrow> Role option list" where
  "get_roles_for_names guild [] = []"
| "get_roles_for_names guild (n # rest) =
     get_role n (guild_roles guild) # get_roles_for_names guild rest"

fun filter_out_non_removable_roles :: "config \<Rightarrow> Role list \<Rightarrow> Role list" where
  "filter_out_non_removable_roles cfg [] = []"
| "filter_out_non_removable_roles cfg (role # rest) =
     (if role_name role \<notin>
           set (MODERATION_ROLES cfg @ [EVERYONE cfg, NITRO_BOOSTER cfg, PATREON_SUPPORTER cfg])
      then role # filter_out_non_removable_roles cfg rest
      else filter_out_non_removable_roles cfg rest)"

text \<open>\<^verbatim>\<open>drone_role in member.roles\<close>, where the role comes from a lookup by name.\<close>

definition role_opt_in :: "Role option \<Rightarrow> Role list \<Rightarrow> bool" where
  "role_opt_in r rs = (case r of None \<Rightarrow> False | Some x \<Rightarrow> role_in x rs)"

text \<open>The body of the member loop of \<^verbatim>\<open>store\<close> for the member that is stored.\<close>

definition store_member ::
  "config \<Rightarrow> Role option \<Rightarrow> str \<Rightarrow> str \<Rightarrow> str \<Rightarrow> str \<Rightarrow> Member \<Rightarrow> world
     \<Rightarrow> bool result" where
  "store_member cfg stored_role drone_id' target_id' time' purpose' member w =
     (let former_roles = filter_out_non_removable_roles cfg (member_roles member)
      in and_then (remove_roles (member_id member) (map Some former_roles) w) (\<lambda>_ w1.
         and_then (add_roles (member_id member) [stored_role] w1) (\<lambda>_ w2.
           (let stored_until = now w2 + timedelta_hours (int_of_digits cfg time');
                (uuid, w3) = uuid4 w2;
                stored_drone =
                  \<lparr>stored_id = uuid, drone_id = drone_id', target_id = target_id',
                   purpose = purpose',
                   roles = str_join (ascii ''|'') (get_names_for_roles former_roles),
                   release_time = stored_until\<rparr>;
                w4 = insert_storage stored_drone w3;
                storage_chambers = get_channel (STORAGE_CHAMBERS cfg) (guild_channels w4);
                plural = (if int_of_digits cfg time' = 1 then (ascii ''hour'') else (ascii ''hours''));
                storer = (if drone_id' = target_id' then (ascii ''yourself'') else drone_id')
            in and_then
                 (send_to storage_chambers
                    (ascii ''Greetings '' @ mention member
                       @ ascii ''. You have been stored away in the Hive Storage Chambers by ''
                       @ storer @ ascii '' for '' @ time' @ ascii '' '' @ plural
                       @ ascii '' and for the following reason: '' @ purpose')
                    w4)
                 (\<lambda>_ w5. Inr (False, w5))))))"

fun store_search ::
  "config \<Rightarrow> Message \<Rightarrow> Role option \<Rightarrow> Role option \<Rightarrow> str \<Rightarrow> str \<Rightarrow> str \<Rightarrow> str
     \<Rightarrow> Member list \<Rightarrow> world \<Rightarrow> bool result" where
  "store_search cfg message stored_role drone_role drone_id' target_id' time' purpose' [] w =
     Inr (True,
          send (channel message) (ascii ''Drone with ID '' @ target_id' @ ascii '' could not be found.'') w)"
| "store_search cfg message stored_role drone_role drone_id' target_id' time' purpose'
     (member # ms) w =
     (if get_id cfg (display_name member) = Some target_id'
         \<and> role_opt_in drone_role (member_roles member)
      then store_member cfg stored_role drone_id' target_id' time' purpose' member w
      else store_search cfg message stored_role drone_role drone_id' target_id' time' purpose'
             ms w)"

definition store :: "config \<Rightarrow> Message \<Rightarrow> world \<Rightarrow> bool result" where
  "store cfg message w =
     (let stored_role = get_role (STORED cfg) (guild_roles w);
          drone_role = get_role (DRONE cfg) (guild_roles w)
      in if lower (content message) = ascii ''help'' then Inr (False, w)
         else
           (case match_format cfg (content message) of
              None \<Rightarrow> Inr (True, send (channel message) REJECT_MESSAGE w)
            | Some (drone_id', target_id', time', purpose') \<Rightarrow>
                if list_ex (\<lambda>stored. target_id stored = target_id') (get_stored_drones w)
                then Inr (True,
                          send (channel message) (target_id' @ ascii '' is already in storage.'') w)
                else if \<not> (0 < int_of_digits cfg time' \<and> int_of_digits cfg time' \<le> 24)
                then Inr (True,
                          send (channel message) (time' @ ascii '' is not between 0 and 24.'') w)
                else store_search cfg message stored_role drone_role drone_id' target_id'
                       time' purpose' (guild_members w) w))"

text \<open>
  The three statements that release a member, which \<^verbatim>\<open>release_timed\<close> and
  \<^verbatim>\<open>release\<close> both have: remove the stored role, add the roles the saved
  names resolve to, delete the row.
\<close>

definition release_from_storage ::
  "Role option \<Rightarrow> Member \<Rightarrow> StoredDrone \<Rightarrow> world \<Rightarrow> unit result" where
  "release_from_storage stored_role member stored w =
     and_then (remove_roles (member_id member) [stored_role] w) (\<lambda>_ w1.
     and_then (add_roles (member_id member)
                 (get_roles_for_names w1 (str_split 124 (roles stored))) w1) (\<lambda>_ w2.
       Inr ((), delete_storage (stored_id stored) w2)))"

text \<open>The member loop of \<^verbatim>\<open>release_timed\<close>, left at the first match.\<close>

fun release_first ::
  "config \<Rightarrow> Role option \<Rightarrow> StoredDrone \<Rightarrow> Member list \<Rightarrow> world \<Rightarrow> unit result" where
  "release_first cfg stored_role stored [] w = Inr ((), w)"
| "release_first cfg stored_role stored (member # ms) w =
     (if get_id cfg (display_name member) = Some (target_id stored)
      then release_from_storage stored_role member stored w
      else release_first cfg stored_role stored ms w)"

definition check_stored ::
  "config \<Rightarrow> Role option \<Rightarrow> datetime \<Rightarrow> StoredDrone \<Rightarrow> world \<Rightarrow> unit result" where
  "check_stored cfg stored_role now' stored w =
     (if now' > release_time stored
      then release_first cfg stored_role stored (guild_members w) w
      else Inr ((), w))"

fun scan_stored ::
  "config \<Rightarrow> Role option \<Rightarrow> datetime \<Rightarrow> StoredDrone list \<Rightarrow> world \<Rightarrow> unit result" where
  "scan_stored cfg stored_role now' [] w = Inr ((), w)"
| "scan_stored cfg stored_role now' (stored # rest) w =
     and_then (check_stored cfg stored_role now' stored w)
       (\<lambda>_ w1. scan_stored cfg stored_role now' rest w1)"

fun release_loop ::
  "config \<Rightarrow> Role option \<Rightarrow> (world \<Rightarrow> world) list \<Rightarrow> world \<Rightarrow> exit result" where
  "release_loop cfg stored_role [] w = Inr (Running, w)"
| "release_loop cfg stored_role (sleep # sleeps) w =
     (let w0 = sleep w; now' = now w0; stored_drones = get_stored_drones w0
      in and_then (scan_stored cfg stored_role now' stored_drones w0)
           (\<lambda>_ w1. release_loop cfg stored_role sleeps w1))"

definition release_timed :: "config \<Rightarrow> (world \<Rightarrow> world) list \<Rightarrow> world \<Rightarrow> exit result" where
  "release_timed cfg sleeps w =
     (if release_started w then Inr (Returned, w)
      else
        (let w1 = w\<lparr>release_started := True\<rparr>;
             stored_role = get_role (STORED cfg) (guild_roles w1)
         in release_loop cfg stored_role sleeps
              (w1\<lparr>loops_entered := loops_entered w1 @ [ReleaseLoop]\<rparr>)))"

text \<open>The loop of \<^verbatim>\<open>release\<close> over the stored rows, left at the first match.\<close>

fun release_search ::
  "Role option \<Rightarrow> Member \<Rightarrow> str option \<Rightarrow> StoredDrone list \<Rightarrow> world \<Rightarrow> bool result" where
  "release_search stored_role member to_release_id [] w = Inr (True, w)"
| "release_search stored_role member to_release_id (drone # rest) w =
     (if Some (target_id drone) = to_release_id
      then and_then (release_from_storage stored_role member drone w) (\<lambda>_ w1. Inr (True, w1))
      else release_search stored_role member to_release_id rest w)"

definition release :: "config \<Rightarrow> Message \<Rightarrow> world \<Rightarrow> bool result" where
  "release cfg message w =
     (if \<not> startswith (lower (content message)) (ascii ''release'') then Inr (False, w)
      else if \<not> has_role (author message) (HIVE_MXTRESS cfg) then Inr (False, w)
      else
        (let stored_role = get_role (STORED cfg) (guild_roles w)
         in (case mentions message of
               [] \<Rightarrow> Inl (IndexError, w)
             | member # _ \<Rightarrow>
                 (let to_release_id = get_id cfg (display_name member)
                  in release_search stored_role member to_release_id
                       (get_stored_drones w) w))))"

text \<open>The periodic report.\<close>

fun report_rows :: "config \<Rightarrow> str option \<Rightarrow> StoredDrone list \<Rightarrow> world \<Rightarrow> unit result" where
  "report_rows cfg storage_channel [] w = Inr ((), w)"
| "report_rows cfg storage_channel (stored # rest) w =
     and_then
       (send_to storage_channel
          (ascii ''`Drone #'' @ target_id stored @ ascii ''`, stored away by `Drone #'' @ drone_id stored
             @ ascii ''`. Remaining time in storage: ''
             @ hours_text cfg (release_time stored - now w) @ ascii '' hours'')
          w)
       (\<lambda>_ w1. report_rows cfg storage_channel rest w1)"

fun report_loop ::
  "config \<Rightarrow> str option \<Rightarrow> (world \<Rightarrow> world) list \<Rightarrow> world \<Rightarrow> exit result" where
  "report_loop cfg storage_channel [] w = Inr (Running, w)"
| "report_loop cfg storage_channel (sleep # sleeps) w =
     (let w0 = sleep w; stored_drones = get_stored_drones w0
      in and_then
           (if length stored_drones = 0
            then send_to storage_channel (ascii ''No drones in storage.'') w0
            else report_rows cfg storage_channel stored_drones w0)
           (\<lambda>_ w1. report_loop cfg storage_channel sleeps w1))"

definition report_storage :: "config \<Rightarrow> (world \<Rightarrow> world) list \<Rightarrow> world \<Rightarrow> exit result" where
  "report_storage cfg sleeps w =
     (if reporter_started w then Inr (Returned, w)
      else
        (let w1 = w\<lparr>reporter_started := True\<rparr>;
             storage_channel = get_channel (STORAGE_CHAMBERS cfg) (guild_channels w1)
         in report_loop cfg storage_channel sleeps
              (w1\<lparr>loops_entered := loops_entered w1 @ [ReportLoop]\<rparr>)))"

section \<open>The handlers of a message\<close>

text \<open>
  Modelled from the spec: the code that hands a message to the handlers listed in
  \<^verbatim>\<open>self.on_message\<close> is not among the sources. By the spec the handlers of the
  list are tried in sequence until one claims the message, that is, returns
  \<^verbatim>\<open>True\<close>. The list itself is the one of \<^verbatim>\<open>Storage.__init__\<close>.
\<close>

fun route ::
  "(Message \<Rightarrow> world \<Rightarrow> bool result) list \<Rightarrow> Message \<Rightarrow> world \<Rightarrow> unit result" where
  "route [] message w = Inr ((), w)"
| "route (handler # rest) message w =
     and_then (handler message w)
       (\<lambda>claimed w1. if claimed then Inr ((), w1) else route rest message w1)"

definition on_message :: "config \<Rightarrow> (Message \<Rightarrow> world \<Rightarrow> bool result) list" where
  "on_message cfg = [release cfg, store cfg]"

section \<open>Sample inputs\<close>

text \<open>
  A sample instance of the identifier lookup for the examples below: the first four
  consecutive digits of a display name.
\<close>

definition ascii_digit :: "nat \<Rightarrow> bool" where
  "ascii_digit c = (48 \<le> c \<and> c \<le> 57)"

fun find_id :: "str \<Rightarrow> str option" where
  "find_id [] = None"
| "find_id (c # cs) =
     (if 4 \<le> length (c # cs) \<and> list_all ascii_digit (take 4 (c # cs))
      then Some (take 4 (c # cs))
      else find_id cs)"

text \<open>
  A sample table with three of the sets of Unicode decimal digits: the digits 0 to 9, the
  Arabic-Indic digits (from U+0660) and the fullwidth digits (from U+FF10).
\<close>

definition sample_decimal :: "nat \<Rightarrow> nat option" where
  "sample_decimal c =
     (if c < 128 then (if 48 \<le> c \<and> c \<le> 57 then Some (c - 48) else None)
      else if c < 1642 then (if 1632 \<le> c then Some (c - 1632) else None)
      else if 65296 \<le> c \<and> c \<le> 65305 then Some (c - 65296)
      else None)"

definition cfg0 :: config where
  "cfg0 =
     \<lparr>get_id = find_id,
      ORDERS_REPORTING = ascii ''hex-orders-reporting'',
      STORAGE_CHAMBERS = ascii ''hex-storage-chambers'',
      STORED = ascii ''Stored'',
      DRONE = ascii ''Drone'',
      HIVE_MXTRESS = ascii ''Hive Mxtress'',
      MODERATION_ROLES = [ascii ''Moderator''],
      EVERYONE = ascii ''@everyone'',
      NITRO_BOOSTER = ascii ''Nitro Booster'',
      PATREON_SUPPORTER = ascii ''Patreon Supporter'',
      hours_text = (\<lambda>d. (ascii ''0.0'')),
      decimal = sample_decimal\<rparr>"

definition r_everyone :: Role where
  "r_everyone = \<lparr>role_id = 0, role_name = ascii ''@everyone''\<rparr>"

definition r_drone :: Role where
  "r_drone = \<lparr>role_id = 1, role_name = ascii ''Drone''\<rparr>"

definition r_stored :: Role where
  "r_stored = \<lparr>role_id = 2, role_name = ascii ''Stored''\<rparr>"

definition r_mxtress :: Role where
  "r_mxtress = \<lparr>role_id = 3, role_name = ascii ''Hive Mxtress''\<rparr>"

definition r_moderator :: Role where
  "r_moderator = \<lparr>role_id = 4, role_name = ascii ''Moderator''\<rparr>"

definition r_gone :: Role where
  "r_gone = \<lparr>role_id = 5, role_name = ascii ''Gone''\<rparr>"

definition m1234 :: Member where
  "m1234 =
     \<lparr>member_id = 10, display_name = ascii ''Drone #1234'', mention = ascii ''<@10>'',
      member_roles = [r_everyone, r_drone]\<rparr>"

definition m5678 :: Member where
  "m5678 =
     \<lparr>member_id = 11, display_name = ascii ''Drone #5678'', mention = ascii ''<@11>'',
      member_roles = [r_everyone, r_drone, r_moderator]\<rparr>"

definition m_mxtress :: Member where
  "m_mxtress =
     \<lparr>member_id = 12, display_name = ascii ''Hive Mxtress'', mention = ascii ''<@12>'',
      member_roles = [r_everyone, r_mxtress]\<rparr>"

definition w0 :: world where
  "w0 =
     \<lparr>guild_roles = [r_everyone, r_drone, r_stored, r_mxtress, r_moderator],
      guild_members = [m1234, m5678, m_mxtress],
      guild_channels = [ascii ''hex-orders-reporting'', ascii ''hex-storage-facility'', ascii ''hex-storage-chambers''],
      orders = [],
      storage = [],
      sent = [],
      now = 1000,
      uuid_counter = 0,
      reporter_started = False,
      release_started = False,
      loops_entered = []\<rparr>"

definition ctx1234 :: Context where
  "ctx1234 = \<lparr>ctx_author = m1234, ctx_channel = ascii ''hex-orders-reporting''\<rparr>"

definition order1234 :: ActiveOrder where
  "order1234 =
     \<lparr>order_id = 7, ActiveOrder.drone_id = ascii ''1234'', protocol = ascii ''recharge'', finish_time = 500\<rparr>"

definition order5678 :: ActiveOrder where
  "order5678 =
     \<lparr>order_id = 8, ActiveOrder.drone_id = ascii ''5678'', protocol = ascii ''cleaning'', finish_time = 600\<rparr>"

text \<open>The state and the exception a run ends with.\<close>

definition state_of :: "'a result \<Rightarrow> world" where
  "state_of r = (case r of Inl (e, w) \<Rightarrow> w | Inr (x, w) \<Rightarrow> w)"

definition raised :: "'a result \<Rightarrow> error option" where
  "raised r = (case r of Inl (e, w) \<Rightarrow> Some e | Inr (x, w) \<Rightarrow> None)"

definition store_msg :: "str \<Rightarrow> Message" where
  "store_msg c =
     \<lparr>content = c, author = m1234, channel = ascii ''hex-storage-facility'', mentions = []\<rparr>"

definition release_msg :: "str \<Rightarrow> Member list \<Rightarrow> Message" where
  "release_msg c ms =
     \<lparr>content = c, author = m_mxtress, channel = ascii ''hex-storage-facility'', mentions = ms\<rparr>"

definition msg_from :: "Member \<Rightarrow> str \<Rightarrow> Member list \<Rightarrow> Message" where
  "msg_from a c ms =
     \<lparr>content = c, author = a, channel = ascii ''hex-storage-facility'', mentions = ms\<rparr>"

text \<open>Some member of the list has the participant identifier \<open>d\<close>.\<close>

definition member_with_id :: "config \<Rightarrow> str \<Rightarrow> Member list \<Rightarrow> bool" where
  "member_with_id cfg d ms = list_ex (\<lambda>m. get_id cfg (display_name m) = Some d) ms"

text \<open>
  The identifiers of the rows a scan deletes: those of the scanned rows that have expired
  and whose participant is among the members.
\<close>

definition deleted_ids :: "config \<Rightarrow> world \<Rightarrow> ActiveOrder list \<Rightarrow> nat set" where
  "deleted_ids cfg w rows =
     order_id ` {r \<in> set rows. finish_time r < now w
                   \<and> member_with_id cfg (ActiveOrder.drone_id r) (guild_members w)}"

text \<open>A state with an expired order of participant 1234, who has left the guild.\<close>

definition w_left :: world where
  "w_left = w0\<lparr>guild_members := [m5678, m_mxtress], orders := [order1234]\<rparr>"

definition w_present :: world where
  "w_present = w0\<lparr>orders := [order1234]\<rparr>"

text \<open>
  Two stored rows, both past their release time. The first one saved the role name
  \<^verbatim>\<open>Gone\<close>, which no role of the guild bears any more.
\<close>

definition stored_a :: StoredDrone where
  "stored_a =
     \<lparr>stored_id = 20, drone_id = ascii ''5678'', target_id = ascii ''1234'', purpose = ascii ''resting'',
      roles = ascii ''Drone|Gone'', release_time = 500\<rparr>"

definition stored_b :: StoredDrone where
  "stored_b =
     \<lparr>stored_id = 21, drone_id = ascii ''1234'', target_id = ascii ''5678'', purpose = ascii ''cleaning'',
      roles = ascii ''Drone'', release_time = 600\<rparr>"

definition w_storage :: "StoredDrone list \<Rightarrow> world" where
  "w_storage rows =
     w0\<lparr>guild_members :=
          [m1234\<lparr>member_roles := [r_everyone, r_stored]\<rparr>,
           m5678\<lparr>member_roles := [r_everyone, r_moderator, r_stored]\<rparr>,
           m_mxtress],
        storage := rows\<rparr>"

text \<open>A guild without the reporting channel, and two expired orders.\<close>

definition w_no_channel :: world where
  "w_no_channel =
     w0\<lparr>guild_channels := [ascii ''hex-storage-facility''], orders := [order1234, order5678]\<rparr>"

text \<open>
  A member with the role \<^verbatim>\<open>Gone\<close> in a guild that has this role, the message
  that stores the member, the state once the role has been deleted from the guild, and the
  message that releases the member. \<open>advance\<close> moves the clock.
\<close>

definition w_with_gone :: world where
  "w_with_gone =
     w0\<lparr>guild_roles := [r_everyone, r_drone, r_stored, r_mxtress, r_moderator, r_gone],
        guild_members :=
          [m1234\<lparr>member_roles := [r_everyone, r_drone, r_gone]\<rparr>, m5678, m_mxtress]\<rparr>"

definition store_1234 :: Message where
  "store_1234 = msg_from m5678 (ascii ''5678 :: 1234 :: 2 :: resting'') []"

definition w_role_deleted :: world where
  "w_role_deleted =
     (state_of (store cfg0 store_1234 w_with_gone))
       \<lparr>guild_roles := [r_everyone, r_drone, r_stored, r_mxtress, r_moderator]\<rparr>"

definition release_1234 :: Message where
  "release_1234 =
     release_msg (ascii ''release <@10>'') [m1234\<lparr>member_roles := [r_everyone, r_stored]\<rparr>]"

definition advance :: "int \<Rightarrow> world \<Rightarrow> world" where
  "advance t w = w\<lparr>now := now w + t\<rparr>"

text \<open>
  Two invocations of \<^verbatim>\<open>report_order\<close> by participant 1234: the state in which
  the first is suspended at its last \<^verbatim>\<open>await\<close>, and the state in which the
  second, started meanwhile, is suspended there too.
\<close>

definition w_first_waiting :: world where
  "w_first_waiting = snd (report_order_start cfg0 ctx1234 (ascii ''recharge'') 60 w0)"

definition w_both_waiting :: world where
  "w_both_waiting = snd (report_order_start cfg0 ctx1234 (ascii ''cleaning'') 30 w_first_waiting)"

text \<open>Store commands whose digits are Arabic-Indic ones: 25 hours, 12 hours, and the target 1234.\<close>

definition store_25_arabic :: Message where
  "store_25_arabic =
     store_msg (ascii ''1234 :: 1234 :: '' @ [1634, 1637] @ ascii '' :: resting'')"

definition store_12_arabic :: Message where
  "store_12_arabic =
     store_msg (ascii ''1234 :: 1234 :: '' @ [1633, 1634] @ ascii '' :: resting'')"

definition store_target_arabic :: Message where
  "store_target_arabic =
     store_msg (ascii ''1234 :: '' @ [1633, 1634, 1635, 1636] @ ascii '' :: 3 :: x'')"

section \<open>Auxiliary facts\<close>

lemma find_Some_mem: "find P xs = Some x \<Longrightarrow> x \<in> set xs \<and> P x"
  by (induction xs) (auto split: if_splits)

lemma find_None_iff_ex: "(find P xs = None) = (\<not> list_ex P xs)"
  by (induction xs) auto

lemma find_mem_Some: "x \<in> set xs \<Longrightarrow> P x \<Longrightarrow> \<exists>y. find P xs = Some y"
  by (induction xs) auto

lemma get_order_None_fresh:
  "get_order_by_drone_id d w = None \<Longrightarrow> d \<notin> set (map ActiveOrder.drone_id (orders w))"
  by (auto simp: get_order_by_drone_id_def find_None_iff_ex list_ex_iff)

lemma report_order_distinct:
  "distinct (map ActiveOrder.drone_id (orders w)) \<Longrightarrow>
   distinct (map ActiveOrder.drone_id (orders (report_order cfg context protocol_name protocol_time w)))"
  using get_order_None_fresh
  by (auto simp: report_order_def report_order_start_def report_order_resume_def send_def
           uuid4_def insert_drone_order_def split: option.splits)

section \<open>Orders: one order per participant, duration bound\<close>

text \<open>
  An invocation of \<^verbatim>\<open>report_order\<close> during which no other coroutine runs keeps
  the participant identifiers of the order table distinct; and when the invoker, whose
  identifier is \<open>d\<close>, has a row in the table, it sends the "already undertaking"
  message naming the protocol of that row and changes nothing else.
\<close>

lemma report_order_already_undertaking:
  assumes "get_id cfg (display_name (ctx_author context)) = Some d"
    and "order \<in> set (orders w)" and "ActiveOrder.drone_id order = d"
  shows "\<exists>current_order.
           get_order_by_drone_id d w = Some current_order
           \<and> current_order \<in> set (orders w)
           \<and> ActiveOrder.drone_id current_order = d
           \<and> report_order cfg context protocol_name protocol_time w =
               w\<lparr>sent := sent w @
                  [(ctx_channel context,
                    ascii ''HexDrone #'' @ d @ ascii '' is already undertaking the ''
                      @ protocol current_order @ ascii '' protocol.'')]\<rparr>"
proof -
  from assms obtain current_order where c: "get_order_by_drone_id d w = Some current_order"
    using find_mem_Some [of order "orders w" "\<lambda>r. ActiveOrder.drone_id r = d"]
    by (auto simp: get_order_by_drone_id_def)
  then have m: "current_order \<in> set (orders w) \<and> ActiveOrder.drone_id current_order = d"
    using find_Some_mem [of "\<lambda>r. ActiveOrder.drone_id r = d" "orders w" current_order]
    by (simp add: get_order_by_drone_id_def)
  have "report_order cfg context protocol_name protocol_time w =
          w\<lparr>sent := sent w @
             [(ctx_channel context,
               ascii ''HexDrone #'' @ d @ ascii '' is already undertaking the ''
                 @ protocol current_order @ ascii '' protocol.'')]\<rparr>"
    using assms(1) c by (simp add: report_order_def report_order_start_def send_def)
  with c m show ?thesis by blast
qed

text \<open>
  Claim C5 at its failing input. \<^verbatim>\<open>report_order\<close> looks the invoker's order up,
  then awaits the sending of the acknowledgement, then inserts. Participant 1234, who has no
  order, invokes it twice, the second time while the first invocation is suspended at that
  \<^verbatim>\<open>await\<close>: the table is still empty, so the second invocation passes the lookup
  too, and when both have resumed the table holds two orders of participant 1234. Run one
  after the other, the same two invocations leave one order.
\<close>

theorem report_order_interleaved_twice:
  "report_order_start cfg0 ctx1234 (ascii ''recharge'') 60 w0
     = (Some (ascii ''1234''), w_first_waiting)
   \<and> orders w_first_waiting = []
   \<and> report_order_start cfg0 ctx1234 (ascii ''cleaning'') 30 w_first_waiting
     = (Some (ascii ''1234''), w_both_waiting)
   \<and> orders
        (report_order_resume (ascii ''1234'') (ascii ''cleaning'') 30
           (report_order_resume (ascii ''1234'') (ascii ''recharge'') 60 w_both_waiting))
     = [\<lparr>order_id = 0, ActiveOrder.drone_id = ascii ''1234'', protocol = ascii ''recharge'',
         finish_time = 3600001000\<rparr>,
        \<lparr>order_id = 1, ActiveOrder.drone_id = ascii ''1234'', protocol = ascii ''cleaning'',
         finish_time = 1800001000\<rparr>]
   \<and> orders (report_order cfg0 ctx1234 (ascii ''cleaning'') 30
               (report_order cfg0 ctx1234 (ascii ''recharge'') 60 w0))
     = [\<lparr>order_id = 0, ActiveOrder.drone_id = ascii ''1234'', protocol = ascii ''recharge'',
         finish_time = 3600001000\<rparr>]"
  by code_simp

text \<open>
  Claim C6. For an invoker with a participant identifier and no active order:
  a \<open>protocol_time\<close> below 1 or above 120 is answered with the rejection message and
  the order table stays as it is; a \<open>protocol_time\<close> from 1 to 120 is answered with
  the acknowledgement, and a row with \<open>finish_time = now + protocol_time\<close> minutes is
  appended to the order table.
\<close>

theorem report_order_duration_bound:
  assumes "get_id cfg (display_name (ctx_author context)) = Some d"
    and "get_order_by_drone_id d w = None"
  shows "(protocol_time < 1 \<or> 120 < protocol_time \<longrightarrow>
            report_order cfg context protocol_name protocol_time w =
              w\<lparr>sent := sent w @
                 [(ctx_channel context,
                   ascii ''Drones are not authorized to activate a specific protocol for that length of time. The maximum is 120 minutes.'')]\<rparr>
            \<and> orders (report_order cfg context protocol_name protocol_time w) = orders w)
       \<and> (1 \<le> protocol_time \<and> protocol_time \<le> 120 \<longrightarrow>
            sent (report_order cfg context protocol_name protocol_time w) =
              sent w @
                [(ctx_channel context,
                  ascii ''If safe and willing to do so, Drone '' @ d @ ascii '' Activate.'' @ [10]
                    @ ascii ''Drone '' @ d
                    @ ascii '' will elaborate on its exact tasks before proceeding with them.'')]
            \<and> orders (report_order cfg context protocol_name protocol_time w) =
              orders w @
                [\<lparr>order_id = uuid_counter w, ActiveOrder.drone_id = d, protocol = protocol_name,
                  finish_time = now w + timedelta_minutes protocol_time\<rparr>])"
  using assms
  by (auto simp: report_order_def report_order_start_def report_order_resume_def send_def
        uuid4_def insert_drone_order_def)

theorem report_order_duration_bound_witness:
  "get_id cfg0 (display_name (ctx_author ctx1234)) = Some (ascii ''1234'')
   \<and> get_order_by_drone_id (ascii ''1234'') w0 = None
   \<and> orders (report_order cfg0 ctx1234 (ascii ''recharge'') 0 w0) = []
   \<and> orders (report_order cfg0 ctx1234 (ascii ''recharge'') 121 w0) = []
   \<and> orders (report_order cfg0 ctx1234 (ascii ''recharge'') (- 5) w0) = []
   \<and> orders (report_order cfg0 ctx1234 (ascii ''recharge'') 1 w0) =
       [\<lparr>order_id = 0, ActiveOrder.drone_id = ascii ''1234'', protocol = ascii ''recharge'',
         finish_time = 60001000\<rparr>]
   \<and> orders (report_order cfg0 ctx1234 (ascii ''recharge'') 60 w0) =
       [\<lparr>order_id = 0, ActiveOrder.drone_id = ascii ''1234'', protocol = ascii ''recharge'',
         finish_time = 3600001000\<rparr>]
   \<and> orders (report_order cfg0 ctx1234 (ascii ''recharge'') 120 w0) =
       [\<lparr>order_id = 0, ActiveOrder.drone_id = ascii ''1234'', protocol = ascii ''recharge'',
         finish_time = 7200001000\<rparr>]"
proof -
  have id: "get_id cfg0 (display_name (ctx_author ctx1234)) = Some (ascii ''1234'')"
    by code_simp
  have none: "get_order_by_drone_id (ascii ''1234'') w0 = None"
    by (simp add: get_order_by_drone_id_def w0_def)
  note b = report_order_duration_bound [OF id none, of _ "ascii ''recharge''"]
  show ?thesis
    using id none b [of 0] b [of 121] b [of "- 5"] b [of 1] b [of 60] b [of 120]
    by (simp add: w0_def timedelta_minutes_def)
qed

section \<open>Storage: the store and release handlers\<close>

lemma match_format_length:
  "match_format cfg s = Some g \<Longrightarrow> 4 < length s"
  by (auto simp: match_format_def Let_def ascii_def split: if_splits)

lemma match_format_not_help:
  "match_format cfg s = Some g \<Longrightarrow> lower s \<noteq> ascii ''help''"
proof
  assume m: "match_format cfg s = Some g" and h: "lower s = ascii ''help''"
  from h have "length (lower s) = 4" by (simp add: ascii_def)
  then have "length s = 4" by (simp add: lower_def)
  with match_format_length [OF m] show False by simp
qed

lemma match_format_digits:
  "match_format cfg s = Some (d, t, time', p) \<Longrightarrow>
     length d = 4 \<and> list_all (is_digit cfg) d \<and> length t = 4 \<and> list_all (is_digit cfg) t
     \<and> time' \<noteq> [] \<and> list_all (is_digit cfg) time' \<and> 10 \<notin> set p"
  by (auto simp: match_format_def Let_def list_all_iff split: if_splits dest: set_takeWhileD)

lemma store_search_find:
  "store_search cfg message stored_role drone_role d t time' p ms w =
     (case find (\<lambda>member. get_id cfg (display_name member) = Some t
                    \<and> role_opt_in drone_role (member_roles member)) ms of
        None \<Rightarrow>
          Inr (True, send (channel message) (ascii ''Drone with ID '' @ t @ ascii '' could not be found.'') w)
      | Some member \<Rightarrow> store_member cfg stored_role d t time' p member w)"
  by (induction ms) auto

lemma release_search_no_match:
  "\<not> list_ex (\<lambda>drone. Some (target_id drone) = i) rows \<Longrightarrow>
   release_search stored_role member i rows w = Inr (True, w)"
  by (induction rows) auto

text \<open>
  Claim C7. For a message that matches the store pattern with groups \<open>(d, t, time', p)\<close>
  and whose target \<open>t\<close> has no row in the storage table: when the hours
  \<open>int(time')\<close> are not in \<open>(0, 24]\<close>, the handler sends "\<open>time'\<close> is not between 0
  and 24." to the channel of the message, reports the message as handled and changes nothing
  else (no role, no row); when they are in \<open>(0, 24]\<close>, it goes on to the member search:
  the first member whose identifier is \<open>t\<close> and who has the drone role is stored, and
  when there is none the not-found message is sent. The digits of the message may be any
  Unicode decimal digits.
\<close>

theorem store_hours_bound:
  assumes "match_format cfg (content message) = Some (d, t, time', p)"
    and "\<not> list_ex (\<lambda>stored. target_id stored = t) (get_stored_drones w)"
  shows "(\<not> (0 < int_of_digits cfg time' \<and> int_of_digits cfg time' \<le> 24) \<longrightarrow>
            store cfg message w =
              Inr (True,
                   w\<lparr>sent := sent w
                      @ [(channel message, time' @ ascii '' is not between 0 and 24.'')]\<rparr>))
       \<and> (0 < int_of_digits cfg time' \<and> int_of_digits cfg time' \<le> 24 \<longrightarrow>
            store cfg message w =
              (case find (\<lambda>member. get_id cfg (display_name member) = Some t
                             \<and> role_opt_in (get_role (DRONE cfg) (guild_roles w))
                                 (member_roles member))
                      (guild_members w) of
                 None \<Rightarrow>
                   Inr (True,
                        w\<lparr>sent := sent w
                           @ [(channel message,
                               ascii ''Drone with ID '' @ t @ ascii '' could not be found.'')]\<rparr>)
               | Some member \<Rightarrow>
                   store_member cfg (get_role (STORED cfg) (guild_roles w)) d t time' p
                     member w))"
  using assms match_format_not_help [OF assms(1)]
  by (simp add: store_def store_search_find send_def split: option.splits)

theorem store_hours_bound_witness:
  "storage (state_of (store cfg0 (store_msg (ascii ''1234 :: 1234 :: 0 :: resting'')) w0)) = []
   \<and> sent (state_of (store cfg0 (store_msg (ascii ''1234 :: 1234 :: 0 :: resting'')) w0)) =
       [(ascii ''hex-storage-facility'', ascii ''0 is not between 0 and 24.'')]
   \<and> guild_members (state_of (store cfg0 (store_msg (ascii ''1234 :: 1234 :: 0 :: resting'')) w0)) =
       guild_members w0
   \<and> store cfg0 (store_msg (ascii ''1234 :: 1234 :: 25 :: resting'')) w0 =
       Inr (True, w0\<lparr>sent := [(ascii ''hex-storage-facility'', ascii ''25 is not between 0 and 24.'')]\<rparr>)
   \<and> storage (state_of (store cfg0 (store_msg (ascii ''1234 :: 1234 :: 1 :: resting'')) w0)) =
       [\<lparr>stored_id = 0, drone_id = ascii ''1234'', target_id = ascii ''1234'', purpose = ascii ''resting'',
         roles = ascii ''Drone'', release_time = 3600001000\<rparr>]
   \<and> storage (state_of (store cfg0 (store_msg (ascii ''1234 :: 1234 :: 24 :: resting'')) w0)) =
       [\<lparr>stored_id = 0, drone_id = ascii ''1234'', target_id = ascii ''1234'', purpose = ascii ''resting'',
         roles = ascii ''Drone'', release_time = 86400001000\<rparr>]
   \<and> store cfg0 store_25_arabic w0 =
       Inr (True,
            w0\<lparr>sent := [(ascii ''hex-storage-facility'',
                          [1634, 1637] @ ascii '' is not between 0 and 24.'')]\<rparr>)
   \<and> storage (state_of (store cfg0 store_12_arabic w0)) =
       [\<lparr>stored_id = 0, drone_id = ascii ''1234'', target_id = ascii ''1234'', purpose = ascii ''resting'',
         roles = ascii ''Drone'', release_time = 43200001000\<rparr>]"
proof -
  let ?sr = "get_role (STORED cfg0) (guild_roles w0)"
  have n: "\<not> list_ex (\<lambda>stored. target_id stored = ascii ''1234'') (get_stored_drones w0)"
    by (simp add: get_stored_drones_def w0_def)
  have m0: "match_format cfg0 (content (store_msg (ascii ''1234 :: 1234 :: 0 :: resting'')))
            = Some (ascii ''1234'', ascii ''1234'', ascii ''0'', ascii ''resting'')"
    by code_simp
  have m25: "match_format cfg0 (content (store_msg (ascii ''1234 :: 1234 :: 25 :: resting'')))
            = Some (ascii ''1234'', ascii ''1234'', ascii ''25'', ascii ''resting'')"
    by code_simp
  have m1: "match_format cfg0 (content (store_msg (ascii ''1234 :: 1234 :: 1 :: resting'')))
            = Some (ascii ''1234'', ascii ''1234'', ascii ''1'', ascii ''resting'')"
    by code_simp
  have m24: "match_format cfg0 (content (store_msg (ascii ''1234 :: 1234 :: 24 :: resting'')))
            = Some (ascii ''1234'', ascii ''1234'', ascii ''24'', ascii ''resting'')"
    by code_simp
  have ma25: "match_format cfg0 (content store_25_arabic)
            = Some (ascii ''1234'', ascii ''1234'', [1634, 1637], ascii ''resting'')"
    by code_simp
  have ma12: "match_format cfg0 (content store_12_arabic)
            = Some (ascii ''1234'', ascii ''1234'', [1633, 1634], ascii ''resting'')"
    by code_simp
  have i0: "\<not> (0 < int_of_digits cfg0 (ascii ''0'') \<and> int_of_digits cfg0 (ascii ''0'') \<le> 24)"
    by code_simp
  have i25: "\<not> (0 < int_of_digits cfg0 (ascii ''25'') \<and> int_of_digits cfg0 (ascii ''25'') \<le> 24)"
    by code_simp
  have ia25: "\<not> (0 < int_of_digits cfg0 [1634, 1637] \<and> int_of_digits cfg0 [1634, 1637] \<le> 24)"
    by code_simp
  have i1: "0 < int_of_digits cfg0 (ascii ''1'') \<and> int_of_digits cfg0 (ascii ''1'') \<le> 24"
    by code_simp
  have i24: "0 < int_of_digits cfg0 (ascii ''24'') \<and> int_of_digits cfg0 (ascii ''24'') \<le> 24"
    by code_simp
  have ia12: "0 < int_of_digits cfg0 [1633, 1634] \<and> int_of_digits cfg0 [1633, 1634] \<le> 24"
    by code_simp
  have f: "find (\<lambda>member. get_id cfg0 (display_name member) = Some (ascii ''1234'')
                   \<and> role_opt_in (get_role (DRONE cfg0) (guild_roles w0)) (member_roles member))
             (guild_members w0) = Some m1234"
    by code_simp
  have r0: "store cfg0 (store_msg (ascii ''1234 :: 1234 :: 0 :: resting'')) w0 =
              Inr (True,
                   w0\<lparr>sent := sent w0
                      @ [(channel (store_msg (ascii ''1234 :: 1234 :: 0 :: resting'')),
                          ascii ''0'' @ ascii '' is not between 0 and 24.'')]\<rparr>)"
    using store_hours_bound [OF m0 n] i0 by blast
  have r25: "store cfg0 (store_msg (ascii ''1234 :: 1234 :: 25 :: resting'')) w0 =
              Inr (True,
                   w0\<lparr>sent := sent w0
                      @ [(channel (store_msg (ascii ''1234 :: 1234 :: 25 :: resting'')),
                          ascii ''25'' @ ascii '' is not between 0 and 24.'')]\<rparr>)"
    using store_hours_bound [OF m25 n] i25 by blast
  have ra25: "store cfg0 store_25_arabic w0 =
              Inr (True,
                   w0\<lparr>sent := sent w0
                      @ [(channel store_25_arabic,
                          [1634, 1637] @ ascii '' is not between 0 and 24.'')]\<rparr>)"
    using store_hours_bound [OF ma25 n] ia25 by blast
  have r1: "store cfg0 (store_msg (ascii ''1234 :: 1234 :: 1 :: resting'')) w0 =
              store_member cfg0 ?sr (ascii ''1234'') (ascii ''1234'') (ascii ''1'') (ascii ''resting'')
                m1234 w0"
    using store_hours_bound [OF m1 n] i1 f by simp
  have r24: "store cfg0 (store_msg (ascii ''1234 :: 1234 :: 24 :: resting'')) w0 =
              store_member cfg0 ?sr (ascii ''1234'') (ascii ''1234'') (ascii ''24'') (ascii ''resting'')
                m1234 w0"
    using store_hours_bound [OF m24 n] i24 f by simp
  have ra12: "store cfg0 store_12_arabic w0 =
              store_member cfg0 ?sr (ascii ''1234'') (ascii ''1234'') [1633, 1634] (ascii ''resting'')
                m1234 w0"
    using store_hours_bound [OF ma12 n] ia12 f by simp
  have s1: "storage (state_of
              (store_member cfg0 ?sr (ascii ''1234'') (ascii ''1234'') (ascii ''1'')
                 (ascii ''resting'') m1234 w0)) =
            [\<lparr>stored_id = 0, drone_id = ascii ''1234'', target_id = ascii ''1234'', purpose = ascii ''resting'',
              roles = ascii ''Drone'', release_time = 3600001000\<rparr>]"
    by code_simp
  have s24: "storage (state_of
              (store_member cfg0 ?sr (ascii ''1234'') (ascii ''1234'') (ascii ''24'')
                 (ascii ''resting'') m1234 w0)) =
            [\<lparr>stored_id = 0, drone_id = ascii ''1234'', target_id = ascii ''1234'', purpose = ascii ''resting'',
              roles = ascii ''Drone'', release_time = 86400001000\<rparr>]"
    by code_simp
  have sa12: "storage (state_of
              (store_member cfg0 ?sr (ascii ''1234'') (ascii ''1234'') [1633, 1634]
                 (ascii ''resting'') m1234 w0)) =
            [\<lparr>stored_id = 0, drone_id = ascii ''1234'', target_id = ascii ''1234'', purpose = ascii ''resting'',
              roles = ascii ''Drone'', release_time = 43200001000\<rparr>]"
    by code_simp
  have c: "channel (store_msg x) = ascii ''hex-storage-facility''" for x
    by (simp add: store_msg_def)
  have c': "channel store_25_arabic = ascii ''hex-storage-facility''"
    by (simp add: store_25_arabic_def store_msg_def)
  have e: "sent w0 = []" "storage w0 = []"
    by (simp_all add: w0_def)
  have a0: "ascii ''0'' @ ascii '' is not between 0 and 24.'' = ascii ''0 is not between 0 and 24.''"
    by (simp add: ascii_def)
  have a25: "ascii ''25'' @ ascii '' is not between 0 and 24.'' = ascii ''25 is not between 0 and 24.''"
    by (simp add: ascii_def)
  show ?thesis
    unfolding r0 r25 ra25 r1 r24 ra12 s1 s24 sa12 c c' a0 a25
    by (simp add: state_of_def e)
qed

text \<open>
  Claim C8. A message whose content, in lower case, is \<^verbatim>\<open>help\<close> gets no response
  from the store handler: the state stays as it is and the message is not reported as
  handled. Every other message that does not match the pattern gets the fixed rejection
  message on its channel and is reported as handled.
\<close>

theorem store_help_and_format:
  "(lower (content message) = ascii ''help'' \<longrightarrow> store cfg message w = Inr (False, w))
   \<and> (lower (content message) \<noteq> ascii ''help'' \<and> match_format cfg (content message) = None \<longrightarrow>
        store cfg message w =
          Inr (True, w\<lparr>sent := sent w @ [(channel message, REJECT_MESSAGE)]\<rparr>))"
  by (simp add: store_def send_def)

theorem store_help_and_format_witness:
  "lower (content (store_msg (ascii ''HeLp''))) = ascii ''help''
   \<and> store cfg0 (store_msg (ascii ''HeLp'')) w0 = Inr (False, w0)
   \<and> lower (content (store_msg (ascii ''12 :: 1234 :: 3 :: x''))) \<noteq> ascii ''help''
   \<and> match_format cfg0 (content (store_msg (ascii ''12 :: 1234 :: 3 :: x''))) = None
   \<and> store cfg0 (store_msg (ascii ''12 :: 1234 :: 3 :: x'')) w0 =
       Inr (True, w0\<lparr>sent := [(ascii ''hex-storage-facility'', REJECT_MESSAGE)]\<rparr>)
   \<and> match_format cfg0 (content store_target_arabic)
       = Some (ascii ''1234'', [1633, 1634, 1635, 1636], ascii ''3'', ascii ''x'')"
proof -
  have a: "lower (content (store_msg (ascii ''HeLp''))) = ascii ''help''"
    by code_simp
  have b: "lower (content (store_msg (ascii ''12 :: 1234 :: 3 :: x''))) \<noteq> ascii ''help''"
    by code_simp
  have c: "match_format cfg0 (content (store_msg (ascii ''12 :: 1234 :: 3 :: x''))) = None"
    by code_simp
  have d: "match_format cfg0 (content store_target_arabic)
       = Some (ascii ''1234'', [1633, 1634, 1635, 1636], ascii ''3'', ascii ''x'')"
    by code_simp
  have r1: "store cfg0 (store_msg (ascii ''HeLp'')) w0 = Inr (False, w0)"
    using store_help_and_format [of "store_msg (ascii ''HeLp'')" cfg0 w0] a by blast
  have r2: "store cfg0 (store_msg (ascii ''12 :: 1234 :: 3 :: x'')) w0 =
       Inr (True, w0\<lparr>sent := sent w0
          @ [(channel (store_msg (ascii ''12 :: 1234 :: 3 :: x'')), REJECT_MESSAGE)]\<rparr>)"
    using store_help_and_format [of "store_msg (ascii ''12 :: 1234 :: 3 :: x'')" cfg0 w0] b c
    by blast
  have e: "sent w0 = []" by (simp add: w0_def)
  have ch: "channel (store_msg (ascii ''12 :: 1234 :: 3 :: x'')) = ascii ''hex-storage-facility''"
    by (simp add: store_msg_def)
  show ?thesis
    using a b c d r1 r2 by (simp add: e ch)
qed

text \<open>
  A message that starts with \<^verbatim>\<open>release\<close> is no store command and is not
  \<^verbatim>\<open>help\<close> (the letters r and R being no digits), so \<^verbatim>\<open>store\<close>,
  when it is given such a message, answers with the rejection message.
\<close>

lemma lower_char_r: "lower_char c = 114 \<Longrightarrow> c = 114 \<or> c = 82"
  by (auto simp: lower_char_def split: if_splits)

lemma startswith_release_first:
  "startswith (lower s) (ascii ''release'') \<Longrightarrow> \<exists>c cs. s = c # cs \<and> lower_char c = 114"
  by (cases s) (simp_all add: startswith_def lower_def ascii_def)

lemma store_on_release_message:
  assumes "startswith (lower (content message)) (ascii ''release'')"
    and "\<not> is_digit cfg 114" and "\<not> is_digit cfg 82"
  shows "store cfg message w =
           Inr (True, w\<lparr>sent := sent w @ [(channel message, REJECT_MESSAGE)]\<rparr>)"
proof -
  from startswith_release_first [OF assms(1)]
  obtain c cs where c: "content message = c # cs" and r: "lower_char c = 114"
    by blast
  from lower_char_r [OF r] assms(2,3) have nd: "\<not> is_digit cfg c"
    by auto
  from c r have nh: "lower (content message) \<noteq> ascii ''help''"
    by (simp add: lower_def ascii_def)
  have "\<not> list_all (is_digit cfg) (take 4 (content message))"
    using c nd by simp
  then have nm: "match_format cfg (content message) = None"
    by (simp add: match_format_def Let_def)
  from nh nm show ?thesis
    by (simp add: store_def send_def)
qed

text \<open>
  Claim C9, as the code has it. To an author without the elevated role the release handler
  sends nothing and changes nothing, but it returns \<^verbatim>\<open>False\<close>: the message is
  not claimed, so a release command goes on to \<^verbatim>\<open>store\<close>, the next handler of
  the list, which answers it with the format rejection message (the letters r and R are no
  decimal digits). When the author holds the
  role, the message is a release command that mentions a member, and no stored row has the
  identifier derived from that member's display name as its target, the handler claims the
  message, and nothing is sent and nothing changes: this invocation is silently ignored.
\<close>

theorem release_unauthorised_or_unmatched:
  "(\<not> has_role (author message) (HIVE_MXTRESS cfg) \<longrightarrow>
      release cfg message w = Inr (False, w)
      \<and> (startswith (lower (content message)) (ascii ''release'')
           \<and> \<not> is_digit cfg 114 \<and> \<not> is_digit cfg 82 \<longrightarrow>
           route (on_message cfg) message w =
             Inr ((), w\<lparr>sent := sent w @ [(channel message, REJECT_MESSAGE)]\<rparr>)))
   \<and> (startswith (lower (content message)) (ascii ''release'')
        \<and> has_role (author message) (HIVE_MXTRESS cfg)
        \<and> mentions message = member # others
        \<and> \<not> list_ex (\<lambda>drone. Some (target_id drone) = get_id cfg (display_name member))
              (get_stored_drones w) \<longrightarrow>
        release cfg message w = Inr (True, w)
        \<and> route (on_message cfg) message w = Inr ((), w))"
proof (intro conjI impI)
  assume "\<not> has_role (author message) (HIVE_MXTRESS cfg)"
  then show r: "release cfg message w = Inr (False, w)"
    by (simp add: release_def)
  assume "startswith (lower (content message)) (ascii ''release'')
           \<and> \<not> is_digit cfg 114 \<and> \<not> is_digit cfg 82"
  then have "store cfg message w =
           Inr (True, w\<lparr>sent := sent w @ [(channel message, REJECT_MESSAGE)]\<rparr>)"
    using store_on_release_message by blast
  with r show "route (on_message cfg) message w =
             Inr ((), w\<lparr>sent := sent w @ [(channel message, REJECT_MESSAGE)]\<rparr>)"
    by (simp add: on_message_def and_then_def)
next
  assume h: "startswith (lower (content message)) (ascii ''release'')
        \<and> has_role (author message) (HIVE_MXTRESS cfg)
        \<and> mentions message = member # others
        \<and> \<not> list_ex (\<lambda>drone. Some (target_id drone) = get_id cfg (display_name member))
              (get_stored_drones w)"
  then show r: "release cfg message w = Inr (True, w)"
    by (auto simp: release_def release_search_no_match)
  then show "route (on_message cfg) message w = Inr ((), w)"
    by (simp add: on_message_def and_then_def)
qed

theorem release_unauthorised_or_unmatched_witness:
  "\<not> has_role (author (msg_from m1234 (ascii ''release <@11>'') [m5678])) (HIVE_MXTRESS cfg0)
   \<and> startswith (lower (content (msg_from m1234 (ascii ''release <@11>'') [m5678])))
        (ascii ''release'')
   \<and> \<not> is_digit cfg0 114 \<and> \<not> is_digit cfg0 82
   \<and> release cfg0 (msg_from m1234 (ascii ''release <@11>'') [m5678]) w0 = Inr (False, w0)
   \<and> route (on_message cfg0) (msg_from m1234 (ascii ''release <@11>'') [m5678]) w0
       = Inr ((), w0\<lparr>sent := [(ascii ''hex-storage-facility'', REJECT_MESSAGE)]\<rparr>)
   \<and> startswith (lower (content (release_msg (ascii ''Release <@11>'') [m5678])))
        (ascii ''release'')
   \<and> has_role (author (release_msg (ascii ''Release <@11>'') [m5678])) (HIVE_MXTRESS cfg0)
   \<and> get_stored_drones w0 = []
   \<and> release cfg0 (release_msg (ascii ''Release <@11>'') [m5678]) w0 = Inr (True, w0)
   \<and> route (on_message cfg0) (release_msg (ascii ''Release <@11>'') [m5678]) w0 = Inr ((), w0)"
proof -
  let ?u = "msg_from m1234 (ascii ''release <@11>'') [m5678]"
  let ?a = "release_msg (ascii ''Release <@11>'') [m5678]"
  have a: "\<not> has_role (author ?u) (HIVE_MXTRESS cfg0)"
    by code_simp
  have s: "startswith (lower (content ?u)) (ascii ''release'')"
    by code_simp
  have n: "\<not> is_digit cfg0 114" "\<not> is_digit cfg0 82"
    by code_simp+
  have b: "startswith (lower (content ?a)) (ascii ''release'')"
    by code_simp
  have c: "has_role (author ?a) (HIVE_MXTRESS cfg0)"
    by code_simp
  have d: "mentions ?a = m5678 # []"
    by (simp add: release_msg_def)
  have e: "get_stored_drones w0 = []"
    by (simp add: get_stored_drones_def w0_def)
  have ch: "channel ?u = ascii ''hex-storage-facility''" "sent w0 = []"
    by (simp_all add: msg_from_def w0_def)
  note t1 = release_unauthorised_or_unmatched [where message = ?u and cfg = cfg0 and w = w0]
  note t2 = release_unauthorised_or_unmatched
    [where message = ?a and cfg = cfg0 and w = w0 and member = m5678 and others = "[]"]
  have r1: "release cfg0 ?u w0 = Inr (False, w0)"
    using t1 a by blast
  have r2: "route (on_message cfg0) ?u w0
       = Inr ((), w0\<lparr>sent := sent w0 @ [(channel ?u, REJECT_MESSAGE)]\<rparr>)"
    using t1 a s n by blast
  have r3: "release cfg0 ?a w0 = Inr (True, w0) \<and> route (on_message cfg0) ?a w0 = Inr ((), w0)"
    using t2 b c d e by simp
  show ?thesis
    using a s n b c e r1 r2 r3 by (simp add: ch)
qed

text \<open>
  Against claim C9 as stated: member 1234, who holds the drone role only, sends
  \<^verbatim>\<open>release <@11>\<close> in the storage channel, and the rejection message is sent in
  response.
\<close>

theorem unauthorised_release_is_answered:
  "has_role (author (msg_from m1234 (ascii ''release <@11>'') [m5678])) (HIVE_MXTRESS cfg0) = False
   \<and> release cfg0 (msg_from m1234 (ascii ''release <@11>'') [m5678]) w0 = Inr (False, w0)
   \<and> sent (state_of (route (on_message cfg0) (msg_from m1234 (ascii ''release <@11>'') [m5678]) w0))
       = [(ascii ''hex-storage-facility'', REJECT_MESSAGE)]"
  by code_simp

text \<open>
  Claim C10. A message that starts with \<^verbatim>\<open>release\<close> (in any case), comes from a
  member holding the elevated role and mentions nobody makes the release handler fail:
  \<^verbatim>\<open>message.mentions[0]\<close> raises \<^verbatim>\<open>IndexError\<close>.
\<close>

theorem release_without_mention_raises:
  "startswith (lower (content message)) (ascii ''release'') \<Longrightarrow>
   has_role (author message) (HIVE_MXTRESS cfg) \<Longrightarrow>
   mentions message = [] \<Longrightarrow>
   release cfg message w = Inl (IndexError, w)"
  by (simp add: release_def)

theorem release_without_mention_raises_witness:
  "startswith (lower (content (release_msg (ascii ''Release'') []))) (ascii ''release'')
   \<and> has_role (author (release_msg (ascii ''Release'') [])) (HIVE_MXTRESS cfg0)
   \<and> mentions (release_msg (ascii ''Release'') []) = []
   \<and> release cfg0 (release_msg (ascii ''Release'') []) w0 = Inl (IndexError, w0)"
proof -
  have a: "startswith (lower (content (release_msg (ascii ''Release'') []))) (ascii ''release'')"
    by code_simp
  have b: "has_role (author (release_msg (ascii ''Release'') [])) (HIVE_MXTRESS cfg0)"
    by code_simp
  have c: "mentions (release_msg (ascii ''Release'') []) = []"
    by (simp add: release_msg_def)
  show ?thesis
    using a b c release_without_mention_raises [OF a b c, of w0] by simp
qed

section \<open>Orders: the expiry scan\<close>

lemma notify_members_effect:
  "notify_members cfg ch order ms w = Inr (u, w') \<Longrightarrow>
     guild_members w' = guild_members w \<and> now w' = now w
     \<and> orders w' =
         (if member_with_id cfg (ActiveOrder.drone_id order) ms
          then filter (\<lambda>r. order_id r \<noteq> order_id order) (orders w)
          else orders w)"
proof (induction ms arbitrary: w)
  case Nil
  then show ?case by (simp add: member_with_id_def)
next
  case (Cons member ms)
  show ?case
  proof (cases "get_id cfg (display_name member) = Some (ActiveOrder.drone_id order)")
    case False
    with Cons show ?thesis by (simp add: member_with_id_def)
  next
    case True
    with Cons.prems obtain c where c: "ch = Some c"
      by (cases ch) (auto simp: and_then_def send_to_def)
    let ?w1 = "delete_drone_order (order_id order)
                 (send c (mention member @ ascii '' Drone '' @ ActiveOrder.drone_id order
                    @ ascii '' Deactivate.'' @ [10] @ ascii ''Drone '' @ ActiveOrder.drone_id order
                    @ ascii '', good drone.'') w)"
    from Cons.prems True c have "notify_members cfg ch order ms ?w1 = Inr (u, w')"
      by (simp add: and_then_def send_to_def)
    from Cons.IH [OF this] True show ?thesis
      by (auto simp: member_with_id_def delete_drone_order_def send_def)
  qed
qed

lemma check_order_effect:
  "check_order cfg ch order w = Inr (u, w') \<Longrightarrow>
     guild_members w' = guild_members w \<and> now w' = now w
     \<and> orders w' =
         (if finish_time order < now w
             \<and> member_with_id cfg (ActiveOrder.drone_id order) (guild_members w)
          then filter (\<lambda>r. order_id r \<noteq> order_id order) (orders w)
          else orders w)"
  using notify_members_effect [of cfg ch order "guild_members w" w u w']
  by (auto simp: check_order_def split: if_splits)

lemma scan_orders_effect:
  "scan_orders cfg ch rows w = Inr (u, w') \<Longrightarrow>
     guild_members w' = guild_members w \<and> now w' = now w
     \<and> orders w' = filter (\<lambda>r. order_id r \<notin> deleted_ids cfg w rows) (orders w)"
proof (induction rows arbitrary: w)
  case Nil
  then show ?case by (simp add: deleted_ids_def)
next
  case (Cons order rest)
  from Cons.prems obtain w1 where
    1: "check_order cfg ch order w = Inr ((), w1)" and
    2: "scan_orders cfg ch rest w1 = Inr (u, w')"
    by (auto simp: and_then_def split: sum.splits)
  note e1 = check_order_effect [OF 1]
  note e2 = Cons.IH [OF 2]
  have d: "deleted_ids cfg w1 rest = deleted_ids cfg w rest"
    using e1 by (simp add: deleted_ids_def)
  show ?case
  proof (cases "finish_time order < now w
             \<and> member_with_id cfg (ActiveOrder.drone_id order) (guild_members w)")
    case True
    then have "deleted_ids cfg w (order # rest) = insert (order_id order) (deleted_ids cfg w rest)"
      by (auto simp: deleted_ids_def)
    with e1 e2 d True show ?thesis by (auto intro: filter_cong)
  next
    case False
    then have "deleted_ids cfg w (order # rest) = deleted_ids cfg w rest"
      by (auto simp: deleted_ids_def)
    with e1 e2 d False show ?thesis by auto
  qed
qed

lemma notify_members_channel:
  "\<exists>w'. notify_members cfg (Some c) order ms w = Inr ((), w')"
  by (induction ms arbitrary: w) (auto simp: and_then_def send_to_def)

lemma check_order_channel:
  "\<exists>w'. check_order cfg (Some c) order w = Inr ((), w')"
  using notify_members_channel [of cfg c order "guild_members w" w]
  by (simp add: check_order_def)

lemma scan_orders_channel:
  "\<exists>w'. scan_orders cfg (Some c) rows w = Inr ((), w')"
proof (induction rows arbitrary: w)
  case Nil
  show ?case by simp
next
  case (Cons order rest)
  obtain w1 where "check_order cfg (Some c) order w = Inr ((), w1)"
    using check_order_channel by blast
  with Cons [of w1] show ?case by (simp add: and_then_def)
qed

text \<open>
  Claim C1, as the code has it. \<^verbatim>\<open>delete_drone_order\<close> stands inside the test
  \<^verbatim>\<open>get_id(member.display_name) == order.drone_id\<close>. So for a row of the table
  that has expired when a pass of the loop scans it (the rows have distinct identifiers):
  if the pass does not raise, the row is gone after it exactly when some member of the guild
  has the order's participant identifier; when no member has it, the row stays and is
  scanned again by the next pass. In a guild that has the reporting channel a pass does not
  raise.
\<close>

theorem order_tick_deletes_iff_member_found:
  assumes "order \<in> set (orders (sleep w))"
    and "finish_time order < now (sleep w)"
    and "distinct (map order_id (orders (sleep w)))"
  shows "(order_loop cfg ch [sleep] w = Inr (x, w') \<longrightarrow>
            (order \<notin> set (orders w')) =
              member_with_id cfg (ActiveOrder.drone_id order) (guild_members (sleep w)))
       \<and> (\<exists>w_end. order_loop cfg (Some c) [sleep] w = Inr (Running, w_end))"
proof (intro conjI impI)
  assume "order_loop cfg ch [sleep] w = Inr (x, w')"
  then obtain u where
    s: "scan_orders cfg ch (orders (sleep w)) (sleep w) = Inr (u, w')"
    by (auto simp: and_then_def fetch_all_drone_orders_def split: sum.splits prod.splits)
  note e = scan_orders_effect [OF s]
  have iff: "(order_id order \<in> deleted_ids cfg (sleep w) (orders (sleep w))) =
        member_with_id cfg (ActiveOrder.drone_id order) (guild_members (sleep w))"
  proof
    assume "order_id order \<in> deleted_ids cfg (sleep w) (orders (sleep w))"
    then obtain r where r: "r \<in> set (orders (sleep w))" "order_id r = order_id order"
      "member_with_id cfg (ActiveOrder.drone_id r) (guild_members (sleep w))"
      by (auto simp: deleted_ids_def)
    from assms(3) r(1,2) assms(1) have "r = order"
      by (meson distinct_map inj_onD)
    with r(3) show "member_with_id cfg (ActiveOrder.drone_id order) (guild_members (sleep w))"
      by simp
  next
    assume "member_with_id cfg (ActiveOrder.drone_id order) (guild_members (sleep w))"
    with assms(1,2) show "order_id order \<in> deleted_ids cfg (sleep w) (orders (sleep w))"
      by (auto simp: deleted_ids_def)
  qed
  from e assms(1) iff
  show "(order \<notin> set (orders w')) =
          member_with_id cfg (ActiveOrder.drone_id order) (guild_members (sleep w))"
    by auto
next
  show "\<exists>w_end. order_loop cfg (Some c) [sleep] w = Inr (Running, w_end)"
    using scan_orders_channel [of cfg c "fetch_all_drone_orders (sleep w)" "sleep w"]
    by (auto simp: and_then_def)
qed

theorem order_tick_deletes_iff_member_found_witness:
  "order1234 \<in> set (orders (id w_left))
   \<and> finish_time order1234 < now (id w_left)
   \<and> distinct (map order_id (orders (id w_left)))
   \<and> order_loop cfg0 (Some (ascii ''hex-orders-reporting'')) [id] w_left = Inr (Running, w_left)
   \<and> order1234 \<in> set (orders w_left)
   \<and> \<not> member_with_id cfg0 (ActiveOrder.drone_id order1234) (guild_members (id w_left))
   \<and> order1234 \<in> set (orders (id w_present))
   \<and> finish_time order1234 < now (id w_present)
   \<and> distinct (map order_id (orders (id w_present)))
   \<and> orders (state_of (order_loop cfg0 (Some (ascii ''hex-orders-reporting'')) [id] w_present)) = []
   \<and> member_with_id cfg0 (ActiveOrder.drone_id order1234) (guild_members (id w_present))"
proof -
  have a: "order1234 \<in> set (orders (id w_left))"
    "finish_time order1234 < now (id w_left)"
    "distinct (map order_id (orders (id w_left)))"
    by (simp_all add: w_left_def w0_def order1234_def)
  have b: "order1234 \<in> set (orders (id w_present))"
    "finish_time order1234 < now (id w_present)"
    "distinct (map order_id (orders (id w_present)))"
    by (simp_all add: w_present_def w0_def order1234_def)
  have l: "order_loop cfg0 (Some (ascii ''hex-orders-reporting'')) [id] w_left = Inr (Running, w_left)"
    by code_simp
  have p: "orders (state_of (order_loop cfg0 (Some (ascii ''hex-orders-reporting'')) [id] w_present)) = []"
    by code_simp
  note t = order_tick_deletes_iff_member_found
    [where cfg = cfg0 and sleep = id and order = order1234 and x = Running
       and ch = "Some (ascii ''hex-orders-reporting'')" and c = "ascii ''hex-orders-reporting''"]
  obtain w' where p': "order_loop cfg0 (Some (ascii ''hex-orders-reporting'')) [id] w_present
      = Inr (Running, w')"
    using t [where w = w_present, OF b] by blast
  show ?thesis
    using a b l p p' t [where w = w_left and w' = w_left, OF a]
      t [where w = w_present and w' = w', OF b]
    by (auto simp: state_of_def)
qed

text \<open>
  Against claim C1 as stated: the order of participant 1234 has expired, no member of the
  guild has this identifier, and after a pass of the loop the row is still in the table.
\<close>

theorem expired_order_of_missing_member_stays:
  "finish_time order1234 < now w_left
   \<and> orders w_left = [order1234]
   \<and> map (get_id cfg0 \<circ> display_name) (guild_members w_left) = [Some (ascii ''5678''), None]
   \<and> check_for_completed_orders cfg0 [id] w_left
       = Inr (Running, w_left\<lparr>loops_entered := [OrderLoop]\<rparr>)
   \<and> orders (w_left\<lparr>loops_entered := [OrderLoop]\<rparr>) = [order1234]"
  by code_simp

section \<open>A failure in one row\<close>

lemma scan_orders_append:
  "scan_orders cfg ch (xs @ ys) w =
     and_then (scan_orders cfg ch xs w) (\<lambda>_ w1. scan_orders cfg ch ys w1)"
  by (induction xs arbitrary: w) (auto simp: and_then_def split: sum.splits)

lemma order_loop_append:
  "order_loop cfg ch (xs @ ys) w =
     and_then (order_loop cfg ch xs w) (\<lambda>_ w1. order_loop cfg ch ys w1)"
  by (induction xs arbitrary: w) (auto simp: and_then_def split: sum.splits)

lemma scan_stored_append:
  "scan_stored cfg stored_role now' (xs @ ys) w =
     and_then (scan_stored cfg stored_role now' xs w)
       (\<lambda>_ w1. scan_stored cfg stored_role now' ys w1)"
  by (induction xs arbitrary: w) (auto simp: and_then_def split: sum.splits)

lemma release_loop_append:
  "release_loop cfg stored_role (xs @ ys) w =
     and_then (release_loop cfg stored_role xs w) (\<lambda>_ w1. release_loop cfg stored_role ys w1)"
  by (induction xs arbitrary: w) (auto simp: and_then_def Let_def split: sum.splits)

text \<open>
  Claim C4, as the code has it. Neither loop catches an exception. In a scan of the order
  expiry loop and of the storage release loop, a failure raised while processing one row,
  after the rows before it have been processed, ends the scan with that failure in the state
  it was raised in, whatever rows follow; and a scan that fails in some pass of the loop ends
  the loop with that failure, whatever passes would follow.
\<close>

theorem row_failure_ends_scan_and_loop:
  "(scan_orders cfg ch orders_before w = Inr ((), w_mid)
      \<and> check_order cfg ch order w_mid = Inl (e, w_fail) \<longrightarrow>
      scan_orders cfg ch (orders_before @ order # orders_after) w = Inl (e, w_fail))
   \<and> (order_loop cfg ch sleeps_before w = Inr (Running, w_mid)
      \<and> scan_orders cfg ch (fetch_all_drone_orders (sleep w_mid)) (sleep w_mid) = Inl (e, w_fail) \<longrightarrow>
      order_loop cfg ch (sleeps_before @ sleep # sleeps_after) w = Inl (e, w_fail))
   \<and> (scan_stored cfg stored_role now' stored_before w = Inr ((), w_mid)
      \<and> check_stored cfg stored_role now' stored w_mid = Inl (e, w_fail) \<longrightarrow>
      scan_stored cfg stored_role now' (stored_before @ stored # stored_after) w = Inl (e, w_fail))
   \<and> (release_loop cfg stored_role sleeps_before w = Inr (Running, w_mid)
      \<and> scan_stored cfg stored_role (now (sleep w_mid)) (get_stored_drones (sleep w_mid)) (sleep w_mid)
          = Inl (e, w_fail) \<longrightarrow>
      release_loop cfg stored_role (sleeps_before @ sleep # sleeps_after) w = Inl (e, w_fail))"
  by (simp add: scan_orders_append order_loop_append scan_stored_append release_loop_append
        and_then_def Let_def)

theorem row_failure_ends_scan_and_loop_witness:
  "scan_orders cfg0 None [] w_no_channel = Inr ((), w_no_channel)
   \<and> check_order cfg0 None order1234 w_no_channel = Inl (AttributeError, w_no_channel)
   \<and> scan_orders cfg0 None ([] @ order1234 # [order5678]) w_no_channel
       = Inl (AttributeError, w_no_channel)
   \<and> order_loop cfg0 None ([] @ id # [id]) w_no_channel = Inl (AttributeError, w_no_channel)
   \<and> scan_stored cfg0 (Some r_stored) 1000 ([stored_b] @ stored_a # [])
         (w_storage [stored_b, stored_a])
       = Inl (AttributeError,
              state_of (check_stored cfg0 (Some r_stored) 1000 stored_a
                (state_of (scan_stored cfg0 (Some r_stored) 1000 [stored_b]
                   (w_storage [stored_b, stored_a])))))
   \<and> storage (state_of (check_stored cfg0 (Some r_stored) 1000 stored_a
                (state_of (scan_stored cfg0 (Some r_stored) 1000 [stored_b]
                   (w_storage [stored_b, stored_a])))))
       = [stored_a]
   \<and> release_loop cfg0 (Some r_stored) ([] @ id # [id]) (w_storage [stored_b, stored_a])
       = Inl (AttributeError,
              state_of (check_stored cfg0 (Some r_stored) 1000 stored_a
                (state_of (scan_stored cfg0 (Some r_stored) 1000 [stored_b]
                   (w_storage [stored_b, stored_a])))))"
proof -
  let ?ws = "w_storage [stored_b, stored_a]"
  let ?w1 = "state_of (scan_stored cfg0 (Some r_stored) 1000 [stored_b] ?ws)"
  let ?w2 = "state_of (check_stored cfg0 (Some r_stored) 1000 stored_a ?w1)"
  have o1: "scan_orders cfg0 None [] w_no_channel = Inr ((), w_no_channel)"
    by simp
  have o2: "check_order cfg0 None order1234 w_no_channel = Inl (AttributeError, w_no_channel)"
    by code_simp
  have o3: "order_loop cfg0 None [] w_no_channel = Inr (Running, w_no_channel)"
    by simp
  have o4: "scan_orders cfg0 None (fetch_all_drone_orders (id w_no_channel)) (id w_no_channel)
            = Inl (AttributeError, w_no_channel)"
    by code_simp
  have s1: "scan_stored cfg0 (Some r_stored) 1000 [stored_b] ?ws = Inr ((), ?w1)"
    by code_simp
  have s2: "check_stored cfg0 (Some r_stored) 1000 stored_a ?w1 = Inl (AttributeError, ?w2)"
    by code_simp
  have s3: "storage ?w2 = [stored_a]"
    by code_simp
  have s4: "release_loop cfg0 (Some r_stored) [] ?ws = Inr (Running, ?ws)"
    by simp
  have s5: "scan_stored cfg0 (Some r_stored) (now (id ?ws)) (get_stored_drones (id ?ws)) (id ?ws)
            = Inl (AttributeError, ?w2)"
    by code_simp
  note t = row_failure_ends_scan_and_loop [where cfg = cfg0 and e = AttributeError]
  have r1: "scan_orders cfg0 None ([] @ order1234 # [order5678]) w_no_channel
            = Inl (AttributeError, w_no_channel)"
    using o1 o2
      t [where ch = None and orders_before = "[]" and w = w_no_channel
           and w_mid = w_no_channel and order = order1234 and w_fail = w_no_channel
           and orders_after = "[order5678]"]
    by blast
  have r2: "order_loop cfg0 None ([] @ id # [id]) w_no_channel
            = Inl (AttributeError, w_no_channel)"
    using o3 o4
      t [where ch = None and sleeps_before = "[]" and w = w_no_channel
           and w_mid = w_no_channel and sleep = id and w_fail = w_no_channel
           and sleeps_after = "[id]"]
    by blast
  have r3: "scan_stored cfg0 (Some r_stored) 1000 ([stored_b] @ stored_a # []) ?ws
            = Inl (AttributeError, ?w2)"
    using s1 s2
      t [where stored_role = "Some r_stored" and now' = 1000 and stored_before = "[stored_b]"
           and w = ?ws and w_mid = ?w1 and stored = stored_a and w_fail = ?w2
           and stored_after = "[]"]
    by blast
  have r4: "release_loop cfg0 (Some r_stored) ([] @ id # [id]) ?ws = Inl (AttributeError, ?w2)"
    using s4 s5
      t [where stored_role = "Some r_stored" and sleeps_before = "[]" and w = ?ws
           and w_mid = ?ws and sleep = id and w_fail = ?w2 and sleeps_after = "[id]"]
    by blast
  show ?thesis
    by (intro conjI) (rule o1 o2 r1 r2 r3 s3 r4)+
qed

text \<open>
  Against claim C4 as stated: the first stored row fails in \<^verbatim>\<open>add_roles\<close>,
  the release loop ends there, and the second row, which the loop releases when it is alone
  in the table, stays. In a guild without the reporting channel the first expired order
  fails, the order loop ends, and both rows stay.
\<close>

theorem failing_row_stops_the_loops:
  "raised (check_stored cfg0 (Some r_stored) 1000 stored_a (w_storage [stored_a, stored_b]))
     = Some AttributeError
   \<and> raised (release_timed cfg0 [id, id] (w_storage [stored_a, stored_b])) = Some AttributeError
   \<and> storage (state_of (release_timed cfg0 [id, id] (w_storage [stored_a, stored_b])))
       = [stored_a, stored_b]
   \<and> raised (release_timed cfg0 [id, id] (w_storage [stored_b])) = None
   \<and> storage (state_of (release_timed cfg0 [id, id] (w_storage [stored_b]))) = []
   \<and> raised (check_order cfg0 None order1234 w_no_channel) = Some AttributeError
   \<and> raised (check_for_completed_orders cfg0 [id, id] w_no_channel) = Some AttributeError
   \<and> orders (state_of (check_for_completed_orders cfg0 [id, id] w_no_channel))
       = [order1234, order5678]"
  by code_simp

section \<open>The entry points of the loops\<close>

lemma release_timed_started:
  "release_started w \<Longrightarrow> release_timed cfg sleeps w = Inr (Returned, w)"
  by (simp add: release_timed_def)

lemma report_storage_started:
  "reporter_started w \<Longrightarrow> report_storage cfg sleeps w = Inr (Returned, w)"
  by (simp add: report_storage_def)

lemma release_timed_first:
  "\<not> release_started w \<Longrightarrow>
   release_timed cfg [] w =
     Inr (Running, w\<lparr>release_started := True, loops_entered := loops_entered w @ [ReleaseLoop]\<rparr>)"
  by (simp add: release_timed_def)

lemma report_storage_first:
  "\<not> reporter_started w \<Longrightarrow>
   report_storage cfg [] w =
     Inr (Running, w\<lparr>reporter_started := True, loops_entered := loops_entered w @ [ReportLoop]\<rparr>)"
  by (simp add: report_storage_def)

lemma check_for_completed_orders_every_call:
  "check_for_completed_orders cfg [] w =
     Inr (Running, w\<lparr>loops_entered := loops_entered w @ [OrderLoop]\<rparr>)"
  by (simp add: check_for_completed_orders_def)

text \<open>
  Claim C3 at its failing input. \<^verbatim>\<open>report_storage\<close> and
  \<^verbatim>\<open>release_timed\<close> test and set a flag before their loop, so a second call
  returns at once. \<^verbatim>\<open>check_for_completed_orders\<close> has no flag: called in the
  state its first call left (that call asleep in its loop), it enters the loop once more, and
  two copies of the order expiry loop run.
\<close>

theorem check_for_completed_orders_twice:
  "check_for_completed_orders cfg0 [] w0
     = Inr (Running, w0\<lparr>loops_entered := [OrderLoop]\<rparr>)
   \<and> check_for_completed_orders cfg0 [] (w0\<lparr>loops_entered := [OrderLoop]\<rparr>)
     = Inr (Running, w0\<lparr>loops_entered := [OrderLoop, OrderLoop]\<rparr>)
   \<and> release_timed cfg0 [] w0
     = Inr (Running, w0\<lparr>release_started := True, loops_entered := [ReleaseLoop]\<rparr>)
   \<and> release_timed cfg0 [] (w0\<lparr>release_started := True, loops_entered := [ReleaseLoop]\<rparr>)
     = Inr (Returned, w0\<lparr>release_started := True, loops_entered := [ReleaseLoop]\<rparr>)
   \<and> report_storage cfg0 [] w0
     = Inr (Running, w0\<lparr>reporter_started := True, loops_entered := [ReportLoop]\<rparr>)
   \<and> report_storage cfg0 [] (w0\<lparr>reporter_started := True, loops_entered := [ReportLoop]\<rparr>)
     = Inr (Returned, w0\<lparr>reporter_started := True, loops_entered := [ReportLoop]\<rparr>)"
  by (simp add: check_for_completed_orders_def release_timed_def report_storage_def w0_def)

section \<open>Storing and releasing: the saved roles\<close>

lemma filter_out_non_removable_roles_filter:
  "filter_out_non_removable_roles cfg rs =
     filter (\<lambda>role. role_name role \<notin>
               set (MODERATION_ROLES cfg @ [EVERYONE cfg, NITRO_BOOSTER cfg, PATREON_SUPPORTER cfg]))
       rs"
  by (induction rs) auto

lemma get_names_for_roles_map:
  "get_names_for_roles rs = map role_name rs"
  by (induction rs) auto

lemma get_roles_for_names_map:
  "get_roles_for_names guild names = map (\<lambda>n. get_role n (guild_roles guild)) names"
  by (induction names) auto

lemma get_roles_for_names_length:
  "length (get_roles_for_names guild names) = length names"
  by (simp add: get_roles_for_names_map)

text \<open>
  What holds of the saved roles. A successful \<^verbatim>\<open>store\<close> of a member appends one
  row whose \<open>roles\<close> are the names of the member's removable roles, joined by
  \<^verbatim>\<open>|\<close>; and when no saved name contains \<^verbatim>\<open>|\<close>, at least one role was
  saved and every saved name still resolves to its role, the roles a release hands to
  \<^verbatim>\<open>add_roles\<close> are exactly the saved ones.
\<close>

lemma add_roles_frame:
  "add_roles i rs w = Inr (u, w') \<Longrightarrow>
     storage w' = storage w \<and> now w' = now w \<and> uuid_counter w' = uuid_counter w
     \<and> guild_channels w' = guild_channels w \<and> guild_roles w' = guild_roles w
     \<and> sent w' = sent w \<and> orders w' = orders w"
  by (induction i rs w rule: add_roles.induct) (auto simp: edit_member_def)

lemma remove_roles_frame:
  "remove_roles i rs w = Inr (u, w') \<Longrightarrow>
     storage w' = storage w \<and> now w' = now w \<and> uuid_counter w' = uuid_counter w
     \<and> guild_channels w' = guild_channels w \<and> guild_roles w' = guild_roles w
     \<and> sent w' = sent w \<and> orders w' = orders w"
  by (induction i rs w rule: remove_roles.induct) (auto simp: edit_member_def)

lemma store_member_row:
  assumes "store_member cfg stored_role d t time' p member w = Inr (b, w')"
  shows "storage w' =
           storage w @
             [\<lparr>stored_id = uuid_counter w, drone_id = d, target_id = t, purpose = p,
               roles = str_join (ascii ''|'')
                 (map role_name
                    (filter (\<lambda>role. role_name role \<notin>
                               set (MODERATION_ROLES cfg
                                    @ [EVERYONE cfg, NITRO_BOOSTER cfg, PATREON_SUPPORTER cfg]))
                       (member_roles member))),
               release_time = now w + timedelta_hours (int_of_digits cfg time')\<rparr>]"
proof -
  let ?former = "filter_out_non_removable_roles cfg (member_roles member)"
  from assms obtain w1 where
    1: "remove_roles (member_id member) (map Some ?former) w = Inr ((), w1)"
    by (auto simp: store_member_def and_then_def Let_def split: sum.splits)
  with assms obtain w2 where
    2: "add_roles (member_id member) [stored_role] w1 = Inr ((), w2)"
    by (auto simp: store_member_def and_then_def Let_def split: sum.splits)
  note f1 = remove_roles_frame [OF 1]
  note f2 = add_roles_frame [OF 2]
  from assms 1 2 f1 f2 show ?thesis
    by (auto simp: store_member_def and_then_def Let_def uuid4_def insert_storage_def
          send_to_def send_def filter_out_non_removable_roles_filter get_names_for_roles_map
          split: sum.splits option.splits)
qed

lemma str_split_nonempty: "str_split c s \<noteq> []"
  by (induction s) (auto split: list.splits)

lemma str_split_no_sep: "c \<notin> set x \<Longrightarrow> str_split c x = [x]"
  by (induction x) auto

lemma str_split_append:
  "c \<notin> set x \<Longrightarrow> str_split c (x @ c # rest) = x # str_split c rest"
  by (induction x) auto

lemma str_split_join:
  "xs \<noteq> [] \<Longrightarrow> \<forall>x\<in>set xs. c \<notin> set x \<Longrightarrow> str_split c (str_join [c] xs) = xs"
  by (induction "[c]" xs rule: str_join.induct)
     (auto simp: str_split_no_sep str_split_append)

lemma get_roles_for_names_resolved:
  "\<forall>r\<in>set rs. get_role (role_name r) (guild_roles guild) = Some r \<Longrightarrow>
   get_roles_for_names guild (map role_name rs) = map Some rs"
  by (induction rs) auto

lemma saved_roles_resolve:
  assumes "rs \<noteq> []"
    and "\<forall>r\<in>set rs. 124 \<notin> set (role_name r)"
    and "\<forall>r\<in>set rs. get_role (role_name r) (guild_roles guild) = Some r"
  shows "get_roles_for_names guild
           (str_split 124 (str_join (ascii ''|'') (get_names_for_roles rs))) = map Some rs"
proof -
  have "str_split 124 (str_join (ascii ''|'') (map role_name rs)) = map role_name rs"
    using assms(1,2) str_split_join [of "map role_name rs" "124"] by (simp add: ascii_def)
  then show ?thesis
    using get_roles_for_names_resolved [OF assms(3)] by (simp add: get_names_for_roles_map)
qed

text \<open>
  Claim C2 at its failing input. Member 1234 holds the roles \<^verbatim>\<open>@everyone\<close>,
  \<^verbatim>\<open>Drone\<close> and \<^verbatim>\<open>Gone\<close> and is stored: the row saves
  \<^verbatim>\<open>Drone|Gone\<close>, the roles of the member without the protected one. Then the role
  \<^verbatim>\<open>Gone\<close> is deleted from the guild. \<^verbatim>\<open>get_roles_for_names\<close> does not
  skip the name: it yields \<^verbatim>\<open>None\<close> in its place, \<^verbatim>\<open>add_roles\<close>
  raises on it, and both the release command and the release loop end with
  \<^verbatim>\<open>AttributeError\<close>, the row still in the table.
\<close>

theorem release_with_deleted_role_raises:
  "map role_name (filter_out_non_removable_roles cfg0 [r_everyone, r_drone, r_gone])
     = [ascii ''Drone'', ascii ''Gone'']
   \<and> raised (store cfg0 store_1234 w_with_gone) = None
   \<and> map roles (storage w_role_deleted) = [ascii ''Drone|Gone'']
   \<and> map member_roles (guild_members w_role_deleted)
       = [[r_everyone, r_stored], [r_everyone, r_drone, r_moderator], [r_everyone, r_mxtress]]
   \<and> get_roles_for_names w_role_deleted (str_split 124 (ascii ''Drone|Gone''))
       = [Some r_drone, None]
   \<and> raised (release cfg0 release_1234 w_role_deleted) = Some AttributeError
   \<and> storage (state_of (release cfg0 release_1234 w_role_deleted)) = storage w_role_deleted
   \<and> raised (release_timed cfg0 [advance 7200000001] w_role_deleted) = Some AttributeError
   \<and> storage (state_of (release_timed cfg0 [advance 7200000001] w_role_deleted))
       = storage w_role_deleted"
  by code_simp

end
